theory Spec2Isabelle
  imports Complex_Main
begin

section \<open>Values, errors and Python sequences\<close>

text \<open>
  The two scripts \<^verbatim>\<open>models/LightGBMModel.py\<close> and \<^verbatim>\<open>models/TSMixerModel_deploy.py\<close>
  are embedded. Python floats are modelled as \<^typ>\<open>real\<close>: every comparison the
  scripts make is against the constant \<open>0.5\<close>, which is a float, so the comparison of a finite
  float is exact. The one floating-point computation the scripts make themselves, the sigmoid
  of the TSMixer script, is modelled with the rounding of every operation written out.
  Python integers are \<^typ>\<open>int\<close>; the integers of a numpy array are the 64-bit ones, with
  the range written out at the cast.

  An exception is a value of \<open>error\<close>. \<open>IndexError\<close> and \<open>ValueError\<close> are the built-in
  exceptions the modelled statements raise themselves; \<open>Raised name\<close> is an exception thrown
  by a collaborator whose body is outside the scripts (fitting, backtesting, plotting).
\<close>

datatype error = IndexError | ValueError | Raised string

text \<open>\<^verbatim>\<open>xs[i]\<close>: a negative index counts from the end, out of range raises.\<close>

definition py_index :: "'a list \<Rightarrow> int \<Rightarrow> error + 'a" where
  "py_index xs i =
     (if 0 \<le> i \<and> i < int (length xs) then Inr (xs ! nat i)
      else if i < 0 \<and> - int (length xs) \<le> i then Inr (xs ! nat (int (length xs) + i))
      else Inl IndexError)"

text \<open>\<^verbatim>\<open>xs[i:]\<close>: the start is taken from the end when negative and clipped to the sequence.\<close>

definition py_slice_from :: "'a list \<Rightarrow> int \<Rightarrow> 'a list" where
  "py_slice_from xs i =
     (let n = int (length xs); j = (if i < 0 then max 0 (n + i) else min i n)
      in drop (nat j) xs)"

text \<open>
  A time series is its rows in time order: a timestamp and the values of the components at
  that time. \<^verbatim>\<open>.time_index\<close> is the column of timestamps, \<^verbatim>\<open>.values().flatten()\<close> the
  values row by row, and \<^verbatim>\<open>series[-n:]\<close> slices the rows by position.
\<close>

type_synonym 't series = "('t \<times> real list) list"

definition time_index :: "'t series \<Rightarrow> 't list" where
  "time_index s = map fst s"

definition values_flatten :: "'t series \<Rightarrow> real list" where
  "values_flatten s = concat (map snd s)"

section \<open>Labels, binarization and precision\<close>

text \<open>
  \<^verbatim>\<open>.astype(int)\<close> on an array of floats gives 64-bit integers. The fractional part is
  dropped (rounding toward zero); a value whose truncation does not fit in 64 bits becomes
  the least 64-bit integer, which is what the conversion instruction of x86-64 returns.
  (NaN and the infinities are not values of \<^typ>\<open>real\<close>; the cast sends them to the same
  integer.)
\<close>

definition truncate_toward_zero :: "real \<Rightarrow> int" where
  "truncate_toward_zero x = (if 0 \<le> x then \<lfloor>x\<rfloor> else \<lceil>x\<rceil>)"

definition INT64_MIN :: int where
  "INT64_MIN = - (2 ^ 63)"

definition astype_int :: "real \<Rightarrow> int" where
  "astype_int x =
     (let t = truncate_toward_zero x
      in if INT64_MIN \<le> t \<and> t < 2 ^ 63 then t else INT64_MIN)"

text \<open>
  \<^verbatim>\<open>true_labels = data["test"][-PRED_STEPS:].values().flatten().astype(int)\<close>
  (LightGBMModel.py line 104; TSMixerModel_deploy.py lines 113 and 116 compute the same
  vector in two steps). No statement inspects the values before or after the cast.
\<close>

definition true_labels :: "int \<Rightarrow> 't series \<Rightarrow> int list" where
  "true_labels PRED_STEPS test_series =
     map astype_int (values_flatten (py_slice_from test_series (- PRED_STEPS)))"

text \<open>
  \<^verbatim>\<open>binary_predictions = (probabilities > 0.5).astype(int)\<close> (LightGBMModel.py line 110;
  TSMixerModel_deploy.py lines 115 and 116 apply the same comparison to the sigmoid output).
\<close>

definition binarize :: "real \<Rightarrow> int" where
  "binarize p = (if p > 0.5 then 1 else 0)"

definition binary_predictions :: "real list \<Rightarrow> int list" where
  "binary_predictions probabilities = map binarize probabilities"

text \<open>
  TSMixerModel_deploy.py, lines 114 to 116: the raw outputs of the model go through a
  sigmoid before the same comparison. The function takes the sigmoid as an argument; the
  one the script applies is \<open>sigmoid_torch\<close>, defined below.
\<close>

definition tsmixer_binary_predictions :: "(real \<Rightarrow> real) \<Rightarrow> 't series \<Rightarrow> int list" where
  "tsmixer_binary_predictions sigmoid pred_series =
     map binarize (map sigmoid (values_flatten pred_series))"

text \<open>
  \<^verbatim>\<open>sigmoid_torch(x) = torch.sigmoid(torch.from_numpy(x)).numpy()\<close> (lines 90 and 91). The
  tensor library computes \<open>1 / (1 + exp (- x))\<close> in the floating-point format of the array,
  and every operation rounds its exact result to the nearest value of the format, to the
  even one of two nearest. A format is given by its number \<open>p\<close> of significand bits
  (53 for float64, 24 for float32). The finite values of the format are modelled as the
  reals \<open>m * 2 ^ e\<close> with \<open>\<bar>m\<bar> < 2 ^ p\<close>; the exponent is not bounded, so overflow and
  underflow are outside the model, as are NaN and the infinities, and the exponential is
  taken as correctly rounded.
\<close>

definition round_half_even :: "real \<Rightarrow> int" where
  "round_half_even r =
     (let f = \<lfloor>r\<rfloor>; d = r - of_int f
      in if d < 1 / 2 then f else if d > 1 / 2 then f + 1 else if even f then f else f + 1)"

text \<open>The exponent of the binade of \<open>y\<close>, and the spacing of the format's values there.\<close>

definition binade :: "real \<Rightarrow> int" where
  "binade y = \<lfloor>log 2 \<bar>y\<bar>\<rfloor>"

definition ulp :: "nat \<Rightarrow> real \<Rightarrow> real" where
  "ulp p y = 2 powr of_int (binade y - int p + 1)"

text \<open>Rounding a real to the nearest value of the format.\<close>

definition float_round :: "nat \<Rightarrow> real \<Rightarrow> real" where
  "float_round p y =
     (if y = 0 then 0 else of_int (round_half_even (y / ulp p y)) * ulp p y)"

definition sigmoid_torch :: "nat \<Rightarrow> real \<Rightarrow> real" where
  "sigmoid_torch p x = float_round p (1 / float_round p (1 + float_round p (exp (- x))))"

text \<open>
  \<^verbatim>\<open>precision_score(y_true, y_pred)\<close> of scikit-learn with the defaults the scripts leave
  in place (\<^verbatim>\<open>average='binary'\<close>, \<^verbatim>\<open>pos_label=1\<close>, \<^verbatim>\<open>zero_division='warn'\<close>):
  \<^item> vectors of different lengths are rejected;
  \<^item> more than two distinct labels make the target multiclass, which \<^verbatim>\<open>average='binary'\<close>
    rejects;
  \<^item> two distinct labels without the positive label \<open>1\<close> are rejected;
  \<^item> otherwise the result is \<open>tp_sum / predicted_sum\<close>, the true positives over the predicted
    positives, and \<open>0.0\<close> (with a warning, no exception) when nothing is predicted positive.

  What the library does with two empty vectors depends on its version; the properties below
  are stated for vectors that are not empty.
\<close>

definition tp_sum :: "int list \<Rightarrow> int list \<Rightarrow> nat" where
  "tp_sum y_true y_pred = length (filter (\<lambda>(t, p). t = 1 \<and> p = 1) (zip y_true y_pred))"

definition predicted_sum :: "int list \<Rightarrow> nat" where
  "predicted_sum y_pred = length (filter (\<lambda>p. p = 1) y_pred)"

definition precision_score :: "int list \<Rightarrow> int list \<Rightarrow> error + real" where
  "precision_score y_true y_pred =
     (if length y_true \<noteq> length y_pred then Inl ValueError
      else let present_labels = remdups (y_true @ y_pred) in
        if length present_labels > 2 then Inl ValueError
        else if 1 \<notin> set present_labels \<and> length present_labels \<ge> 2 then Inl ValueError
        else Inr (if predicted_sum y_pred = 0 then 0
                  else real (tp_sum y_true y_pred) / real (predicted_sum y_pred)))"

text \<open>
  The precision LightGBMModel.py computes from the test series and the backtest output
  (lines 104, 109, 110 and 112).
\<close>

definition lightgbm_precision :: "int \<Rightarrow> 't series \<Rightarrow> 't series \<Rightarrow> error + real" where
  "lightgbm_precision PRED_STEPS test_series backtest_series =
     precision_score (true_labels PRED_STEPS test_series)
       (binary_predictions (values_flatten (py_slice_from backtest_series (- PRED_STEPS))))"

text \<open>The precision TSMixerModel_deploy.py computes at line 116.\<close>

definition tsmixer_precision ::
  "(real \<Rightarrow> real) \<Rightarrow> int \<Rightarrow> 't series \<Rightarrow> 't series \<Rightarrow> error + real" where
  "tsmixer_precision sigmoid pred_steps test_series pred_series =
     precision_score (true_labels pred_steps test_series)
       (tsmixer_binary_predictions sigmoid pred_series)"

text \<open>The confusion counts of the specification: true positives and false positives.\<close>

definition TP :: "int list \<Rightarrow> int list \<Rightarrow> nat" where
  "TP y_true y_pred = length (filter (\<lambda>(t, p). t = 1 \<and> p = 1) (zip y_true y_pred))"

definition FP :: "int list \<Rightarrow> int list \<Rightarrow> nat" where
  "FP y_true y_pred = length (filter (\<lambda>(t, p). t = 0 \<and> p = 1) (zip y_true y_pred))"

text \<open>The precision of the specification: TP / (TP + FP), and 0 when the sum is 0.\<close>

definition spec_precision :: "int list \<Rightarrow> int list \<Rightarrow> real" where
  "spec_precision y_true y_pred =
     (if TP y_true y_pred + FP y_true y_pred = 0 then 0
      else real (TP y_true y_pred) / real (TP y_true y_pred + FP y_true y_pred))"

section \<open>One trial: fit, backtest, score (LightGBMModel.py, \<open>train_and_evaluate\<close>)\<close>

text \<open>The data dictionary with its five fixed keys.\<close>

record 't series_bundle =
  train :: "'t series"
  val :: "'t series"
  test :: "'t series"
  past_covariates :: "'t series"
  future_covariates :: "'t series"

text \<open>The keyword arguments of \<^verbatim>\<open>model.fit\<close> (lines 83 to 90).\<close>

record 't fit_args =
  series :: "'t series"
  fit_past_covariates :: "'t series"
  fit_future_covariates :: "'t series"
  val_series :: "'t series"
  val_past_covariates :: "'t series"
  val_future_covariates :: "'t series"

text \<open>The keyword arguments of \<^verbatim>\<open>model.historical_forecasts\<close> (lines 93 to 101).\<close>

record 't hf_args =
  hf_series :: "'t series"
  hf_past_covariates :: "'t series"
  hf_future_covariates :: "'t series"
  start :: 't
  forecast_horizon :: int
  stride :: int
  retrain :: bool

text \<open>
  The collaborators of a trial are parameters: the two methods of the model object and the
  plotting block (lines 115 to 120) either return or raise.
\<close>

record 't collaborators =
  model_fit :: "'t fit_args \<Rightarrow> error + unit"
  model_historical_forecasts :: "'t hf_args \<Rightarrow> error + 't series"
  plotting :: "error + unit"

text \<open>The calls a trial makes, in the order it makes them.\<close>

datatype 't call =
    Fit "'t fit_args"
  | Historical_forecasts "'t hf_args"
  | Print "'t list"
  | Precision_score "int list" "int list"
  | Logger_info
  | Plot
  | Del_model
  | Empty_cache

text \<open>
  \<^verbatim>\<open>train_and_evaluate(model, data)\<close>, statement by statement. An exception leaves the
  function at the statement that raises it: the function has no \<^verbatim>\<open>try\<close>. The result is
  the trace of calls made and the precision or the exception.
\<close>

definition train_and_evaluate ::
  "'t collaborators \<Rightarrow> int \<Rightarrow> 't series_bundle \<Rightarrow> 't call list \<times> (error + real)" where
  "train_and_evaluate model PRED_STEPS data =
     (let fit_call = \<lparr>series = py_slice_from (train data) (- 300),
                       fit_past_covariates = past_covariates data,
                       fit_future_covariates = future_covariates data,
                       val_series = val data,
                       val_past_covariates = past_covariates data,
                       val_future_covariates = future_covariates data\<rparr>
      in case model_fit model fit_call of
        Inl e \<Rightarrow> ([Fit fit_call], Inl e)
      | Inr _ \<Rightarrow>
      (case py_index (time_index (test data)) (- PRED_STEPS) of
        Inl e \<Rightarrow> ([Fit fit_call], Inl e)
      | Inr first \<Rightarrow>
      (let hf_call = \<lparr>hf_series = test data,
                        hf_past_covariates = past_covariates data,
                        hf_future_covariates = future_covariates data,
                        start = first, forecast_horizon = 1, stride = 1, retrain = False\<rparr>
       in case model_historical_forecasts model hf_call of
        Inl e \<Rightarrow> ([Fit fit_call, Historical_forecasts hf_call], Inl e)
      | Inr backtest_series \<Rightarrow>
      (let labels = true_labels PRED_STEPS (test data);
           probabilities = values_flatten (py_slice_from backtest_series (- PRED_STEPS));
           predictions = binary_predictions probabilities;
           scored = [Fit fit_call, Historical_forecasts hf_call,
                     Print [first],
                     Print (time_index (test data)),
                     Print (time_index (py_slice_from (test data) (- PRED_STEPS))),
                     Print (time_index (py_slice_from backtest_series (- PRED_STEPS))),
                     Precision_score labels predictions]
       in case precision_score labels predictions of
        Inl e \<Rightarrow> (scored, Inl e)
      | Inr precision \<Rightarrow>
      (case plotting model of
        Inl e \<Rightarrow> (scored @ [Logger_info, Plot], Inl e)
      | Inr _ \<Rightarrow>
          (scored @ [Logger_info, Plot, Del_model, Empty_cache], Inr precision))))))"

section \<open>The rolling-origin backtest\<close>

text \<open>The call of \<^verbatim>\<open>model.fit\<close> that \<open>train_and_evaluate\<close> makes (lines 83 to 90).\<close>

definition fit_call :: "'t series_bundle \<Rightarrow> 't fit_args" where
  "fit_call data =
     \<lparr>series = py_slice_from (train data) (- 300),
      fit_past_covariates = past_covariates data,
      fit_future_covariates = future_covariates data,
      val_series = val data,
      val_past_covariates = past_covariates data,
      val_future_covariates = future_covariates data\<rparr>"

text \<open>
  The call of \<^verbatim>\<open>model.historical_forecasts\<close> that \<open>train_and_evaluate\<close> makes once the
  first timestamp of the evaluation window is known.
\<close>

definition backtest_call :: "'t series_bundle \<Rightarrow> 't \<Rightarrow> 't hf_args" where
  "backtest_call data first =
     \<lparr>hf_series = test data,
      hf_past_covariates = past_covariates data,
      hf_future_covariates = future_covariates data,
      start = first, forecast_horizon = 1, stride = 1, retrain = False\<rparr>"






section \<open>The search space (LightGBMModel.py, \<open>define_model\<close>)\<close>

text \<open>
  A trial of the optimization library, as far as \<open>define_model\<close> uses it: its number, the
  values suggested so far and the domain each of them was drawn from.
\<close>

datatype param_value = Int_value int | Float_value real

datatype distribution = IntDistribution int int | FloatDistribution real real

record trial =
  number :: nat
  params :: "(string \<times> param_value) list"
  distributions :: "(string \<times> distribution) list"

text \<open>
  The sampler of the study draws the values; it is a parameter. \<^verbatim>\<open>trial.suggest_int\<close> and
  \<^verbatim>\<open>trial.suggest_float\<close> build the domain first, which raises \<^verbatim>\<open>ValueError\<close> when
  \<open>low\<close> is greater than \<open>high\<close>; nothing is recorded on the trial in that case.
  Otherwise the value drawn and its domain are recorded under the name. (The names
  \<open>define_model\<close> uses are distinct, so no name is suggested twice in a trial.)
\<close>

record sampler =
  sample_int :: "nat \<Rightarrow> string \<Rightarrow> int \<Rightarrow> int \<Rightarrow> int"
  sample_float :: "nat \<Rightarrow> string \<Rightarrow> real \<Rightarrow> real \<Rightarrow> real"

definition suggest_int :: "sampler \<Rightarrow> string \<Rightarrow> int \<Rightarrow> int \<Rightarrow> trial \<Rightarrow> trial \<times> (error + int)" where
  "suggest_int smp name low high trial =
     (if low > high then (trial, Inl ValueError)
      else let v = sample_int smp (number trial) name low high
           in (trial\<lparr>params := params trial @ [(name, Int_value v)],
                     distributions := distributions trial @ [(name, IntDistribution low high)]\<rparr>,
               Inr v))"

definition suggest_float :: "sampler \<Rightarrow> string \<Rightarrow> real \<Rightarrow> real \<Rightarrow> trial \<Rightarrow> trial \<times> (error + real)" where
  "suggest_float smp name low high trial =
     (if low > high then (trial, Inl ValueError)
      else let v = sample_float smp (number trial) name low high
           in (trial\<lparr>params := params trial @ [(name, Float_value v)],
                     distributions := distributions trial @ [(name, FloatDistribution low high)]\<rparr>,
               Inr v))"

text \<open>
  The entries of the dictionary literal are evaluated in order; the first call that raises
  ends the function.
\<close>

definition and_then ::
  "(trial \<Rightarrow> trial \<times> (error + 'a)) \<Rightarrow> ('a \<Rightarrow> trial \<Rightarrow> trial \<times> (error + 'b)) \<Rightarrow>
   trial \<Rightarrow> trial \<times> (error + 'b)" where
  "and_then step rest trial =
     (case step trial of
        (trial', Inl e) \<Rightarrow> (trial', Inl e)
      | (trial', Inr v) \<Rightarrow> rest v trial')"

text \<open>
  The keyword arguments of the \<^verbatim>\<open>LightGBMModel\<close> constructor (lines 49 to 62). The model
  object is represented by them; what its methods do is the \<open>collaborators\<close> record above.
\<close>

record lgbm_params =
  lags :: int
  lags_past_covariates :: int
  lags_future_covariates :: "int list"
  output_chunk_length :: int
  learning_rate :: real
  num_leaves :: int
  n_estimators :: int
  min_child_samples :: int
  subsample :: real
  colsample_bytree :: real
  lgbm_objective :: string
  random_state :: int

definition define_model :: "sampler \<Rightarrow> int \<Rightarrow> trial \<Rightarrow> trial \<times> (error + lgbm_params)" where
  "define_model smp PRED_STEPS =
     and_then (suggest_int smp ''lags'' 1 64) (\<lambda>v_lags.
     and_then (suggest_int smp ''lags_past_covariates'' 1 64) (\<lambda>v_lags_past.
     and_then (suggest_int smp ''output_chunk_length'' 1 (min 20 PRED_STEPS)) (\<lambda>v_output.
     and_then (suggest_float smp ''learning_rate'' 0.001 0.1) (\<lambda>v_rate.
     and_then (suggest_int smp ''num_leaves'' 31 256) (\<lambda>v_leaves.
     and_then (suggest_int smp ''n_estimators'' 50 500) (\<lambda>v_estimators.
     and_then (suggest_int smp ''min_child_samples'' 20 100) (\<lambda>v_child.
     and_then (suggest_float smp ''subsample'' 0.6 1.0) (\<lambda>v_subsample.
     and_then (suggest_float smp ''colsample_bytree'' 0.6 1.0) (\<lambda>v_colsample.
     (\<lambda>trial. (trial, Inr
        \<lparr>lags = v_lags,
         lags_past_covariates = v_lags_past,
         lags_future_covariates = [0, - 1, - 2],
         output_chunk_length = v_output,
         learning_rate = v_rate,
         num_leaves = v_leaves,
         n_estimators = v_estimators,
         min_child_samples = v_child,
         subsample = v_subsample,
         colsample_bytree = v_colsample,
         lgbm_objective = ''binary'',
         random_state = 42\<rparr>)))))))))))"

section \<open>The study and the optimization loop (LightGBMModel.py, \<open>objective\<close> and main block)\<close>

text \<open>A trial starts with its number and nothing suggested.\<close>

definition new_trial :: "nat \<Rightarrow> trial" where
  "new_trial n = \<lparr>number = n, params = [], distributions = []\<rparr>"

text \<open>
  A study is the list of its recorded trials, oldest first. \<^verbatim>\<open>load_if_exists=True\<close> makes
  the trials of earlier runs, in any state, part of the study the script starts from.
\<close>

datatype trial_state = RUNNING | COMPLETE | PRUNED | FAIL | WAITING

record frozen_trial =
  trial_number :: nat
  state :: trial_state
  trial_value :: "real option"
  trial_params :: "(string \<times> param_value) list"

type_synonym study = "frozen_trial list"

definition tell :: "trial \<Rightarrow> trial_state \<Rightarrow> real option \<Rightarrow> frozen_trial" where
  "tell trial st v =
     \<lparr>trial_number = number trial, state = st, trial_value = v, trial_params = params trial\<rparr>"

text \<open>
  \<^verbatim>\<open>study.best_trial\<close> for the direction \<^verbatim>\<open>maximize\<close>: among the trials in state
  \<open>COMPLETE\<close>, the one with the greatest value, and \<^verbatim>\<open>ValueError\<close> when no trial is
  complete. Between complete trials of equal value the choice belongs to the storage; the
  model takes the earliest, as Python's \<^verbatim>\<open>max\<close> over the trial list does.
  \<^verbatim>\<open>study.best_value\<close> and \<^verbatim>\<open>study.best_params\<close> read the value and the parameters of
  that trial.
\<close>

definition completed :: "study \<Rightarrow> (real \<times> frozen_trial) list" where
  "completed study =
     List.map_filter
       (\<lambda>t. if state t = COMPLETE then map_option (\<lambda>v. (v, t)) (trial_value t) else None) study"

definition first_max :: "(real \<times> 'a) list \<Rightarrow> (real \<times> 'a) option" where
  "first_max cs =
     (case cs of [] \<Rightarrow> None
      | _ # _ \<Rightarrow> find (\<lambda>(v, t). v = Max (set (map fst cs))) cs)"

definition best :: "study \<Rightarrow> error + real \<times> frozen_trial" where
  "best study =
     (case first_max (completed study) of
        None \<Rightarrow> Inl ValueError
      | Some vt \<Rightarrow> Inr vt)"

definition best_value :: "study \<Rightarrow> error + real" where
  "best_value study = map_sum id fst (best study)"

definition best_params :: "study \<Rightarrow> error + (string \<times> param_value) list" where
  "best_params study = map_sum id (\<lambda>(v, t). trial_params t) (best study)"

text \<open>
  \<^verbatim>\<open>objective(trial)\<close>. Line 164 formats \<^verbatim>\<open>study.best_value\<close> after the evaluation: the
  trial that is running is not complete yet, so the property is read from the trials
  recorded before it, and it raises when none of them is complete. \<open>world n model\<close> is what
  the model object built in trial \<open>n\<close> and the plotting do.
\<close>

definition objective ::
  "sampler \<Rightarrow> (nat \<Rightarrow> lgbm_params \<Rightarrow> 't collaborators) \<Rightarrow> int \<Rightarrow> 't series_bundle \<Rightarrow>
   study \<Rightarrow> trial \<Rightarrow> trial \<times> (error + real)" where
  "objective smp world PRED_STEPS data study trial =
     (case define_model smp PRED_STEPS trial of
        (trial', Inl e) \<Rightarrow> (trial', Inl e)
      | (trial', Inr model) \<Rightarrow>
          (case snd (train_and_evaluate (world (number trial) model) PRED_STEPS data) of
             Inl e \<Rightarrow> (trial', Inl e)
           | Inr precision \<Rightarrow>
               (case best_value study of
                  Inl e \<Rightarrow> (trial', Inl e)
                | Inr _ \<Rightarrow> (trial', Inr precision))))"

text \<open>
  \<^verbatim>\<open>study.optimize(objective, n_trials, n_jobs=1)\<close>: the call passes no \<^verbatim>\<open>catch\<close>
  argument, and the default is the empty tuple, so the loop records a trial whose objective
  raises as \<open>FAIL\<close> and raises the exception again. A trial whose objective returns is
  recorded as \<open>COMPLETE\<close> with the value returned. A new trial gets the number of trials
  already in the study.
\<close>

fun optimize ::
  "(study \<Rightarrow> trial \<Rightarrow> trial \<times> (error + real)) \<Rightarrow> nat \<Rightarrow> study \<Rightarrow> study \<times> (error + unit)" where
  "optimize func 0 study = (study, Inr ())"
| "optimize func (Suc n_trials) study =
     (case func study (new_trial (length study)) of
        (trial, Inl e) \<Rightarrow> (study @ [tell trial FAIL None], Inl e)
      | (trial, Inr v) \<Rightarrow> optimize func n_trials (study @ [tell trial COMPLETE (Some v)]))"

text \<open>
  The main block: run the loop, then report \<^verbatim>\<open>study.best_params\<close> and
  \<^verbatim>\<open>study.best_value\<close>. The script runs 50 trials.
\<close>

definition run_study ::
  "sampler \<Rightarrow> (nat \<Rightarrow> lgbm_params \<Rightarrow> 't collaborators) \<Rightarrow> int \<Rightarrow> 't series_bundle \<Rightarrow>
   nat \<Rightarrow> study \<Rightarrow> study \<times> (error + (string \<times> param_value) list \<times> real)" where
  "run_study smp world PRED_STEPS data n_trials loaded =
     (case optimize (objective smp world PRED_STEPS data) n_trials loaded of
        (study, Inl e) \<Rightarrow> (study, Inl e)
      | (study, Inr _) \<Rightarrow>
          (case best_params study of
             Inl e \<Rightarrow> (study, Inl e)
           | Inr ps \<Rightarrow>
               (case best_value study of
                  Inl e \<Rightarrow> (study, Inl e)
                | Inr v \<Rightarrow> (study, Inr (ps, v)))))"

definition main ::
  "sampler \<Rightarrow> (nat \<Rightarrow> lgbm_params \<Rightarrow> 't collaborators) \<Rightarrow> int \<Rightarrow> 't series_bundle \<Rightarrow>
   study \<Rightarrow> study \<times> (error + (string \<times> param_value) list \<times> real)" where
  "main smp world PRED_STEPS data loaded = run_study smp world PRED_STEPS data 50 loaded"

text \<open>
  \<open>ran_complete func study cs\<close>: the records \<open>cs\<close> are those of consecutive trials run on
  top of \<open>study\<close>, each of which returned a value and was recorded as complete with it.
\<close>

fun ran_complete ::
  "(study \<Rightarrow> trial \<Rightarrow> trial \<times> (error + real)) \<Rightarrow> study \<Rightarrow> frozen_trial list \<Rightarrow> bool" where
  "ran_complete func study [] = True"
| "ran_complete func study (c # cs) =
     (case func study (new_trial (length study)) of
        (trial, Inl e) \<Rightarrow> False
      | (trial, Inr v) \<Rightarrow> c = tell trial COMPLETE (Some v) \<and> ran_complete func (study @ [c]) cs)"

text \<open>
  The running best of the specification, in its words: after a trial with a score, the best
  value and parameters are replaced when the score is strictly greater than the current
  best (and set when there is no best yet). \<open>best_so_far\<close> is what the study answers: its
  best value and parameters, when it has a completed trial.
\<close>

definition spec_update_best :: "(real \<times> 'p) option \<Rightarrow> real \<times> 'p \<Rightarrow> (real \<times> 'p) option" where
  "spec_update_best current new =
     (case current of
        None \<Rightarrow> Some new
      | Some (current_value, current_params) \<Rightarrow>
          if fst new > current_value then Some new else Some (current_value, current_params))"

definition best_so_far :: "study \<Rightarrow> (real \<times> (string \<times> param_value) list) option" where
  "best_so_far study =
     (case best study of Inl e \<Rightarrow> None | Inr (v, t) \<Rightarrow> Some (v, trial_params t))"

section \<open>Concrete collaborators and data for closed instances\<close>

text \<open>
  A model object whose fit returns, whose backtest gives a fixed result, and a plotting block
  with a fixed outcome; and a data dictionary whose test series is univariate with the
  timestamps 1, 2, 3, ... and the given values.
\<close>

definition fixed_collaborators :: "(error + 't series) \<Rightarrow> (error + unit) \<Rightarrow> 't collaborators" where
  "fixed_collaborators backtest plots =
     \<lparr>model_fit = (\<lambda>_. Inr ()), model_historical_forecasts = (\<lambda>_. backtest),
      plotting = plots\<rparr>"

definition tail_labels :: "real list \<Rightarrow> nat series_bundle" where
  "tail_labels vs =
     \<lparr>train = [], val = [], test = zip [1 ..< Suc (length vs)] (map (\<lambda>v. [v]) vs),
      past_covariates = [], future_covariates = []\<rparr>"



text \<open>
  A sampler that always draws the lower bound; a trial completed in an earlier run; a world
  in which fitting raises in trial \<open>k\<close> and the backtest otherwise returns the given outputs
  stamped 1, 2, 3, ...; and a trial with one suggested value.
\<close>

definition lowest :: sampler where
  "lowest = \<lparr>sample_int = (\<lambda>n name low high. low), sample_float = (\<lambda>n name low high. low)\<rparr>"

definition earlier_trial :: "real \<Rightarrow> frozen_trial" where
  "earlier_trial v = \<lparr>trial_number = 0, state = COMPLETE, trial_value = Some v, trial_params = []\<rparr>"

definition failing_at :: "nat \<Rightarrow> real list \<Rightarrow> nat \<Rightarrow> lgbm_params \<Rightarrow> nat collaborators" where
  "failing_at k outputs n model =
     \<lparr>model_fit = (\<lambda>_. if n = k then Inl (Raised ''TrainingError'') else Inr ()),
      model_historical_forecasts = (\<lambda>a. Inr (zip [1 ..< Suc (length outputs)] (map (\<lambda>v. [v]) outputs))),
      plotting = Inr ()\<rparr>"

definition trial_with :: "nat \<Rightarrow> int \<Rightarrow> trial" where
  "trial_with n k = \<lparr>number = n, params = [(''lags'', Int_value k)], distributions = []\<rparr>"

lemmas run_trial_simps =
  train_and_evaluate_def fixed_collaborators_def tail_labels_def Let_def
  py_index_def py_slice_from_def time_index_def values_flatten_def true_labels_def
  astype_int_def truncate_toward_zero_def INT64_MIN_def
  binary_predictions_def binarize_def precision_score_def
  tp_sum_def predicted_sum_def upt_rec

lemmas define_model_simps = define_model_def and_then_def suggest_int_def suggest_float_def Let_def

lemmas run_study_simps =
  run_study_def objective_def define_model_simps new_trial_def lowest_def failing_at_def
  earlier_trial_def tell_def best_value_def best_params_def best_def first_max_def
  completed_def List.map_filter_simps run_trial_simps

section \<open>Properties of labels, binarization and precision\<close>

lemma binarize_range: "binarize p \<in> {0, 1}"
  by (simp add: binarize_def)

lemma set_binary_predictions: "set (binary_predictions ps) \<subseteq> {0, 1}"
  by (auto simp: binary_predictions_def binarize_def)

lemma length_binary_predictions: "length (binary_predictions ps) = length ps"
  by (simp add: binary_predictions_def)

lemma tp_le_pred:
  "length y_true = length y_pred \<Longrightarrow> tp_sum y_true y_pred \<le> predicted_sum y_pred"
proof (induction y_true y_pred rule: list_induct2)
  case Nil
  show ?case by (simp add: tp_sum_def predicted_sum_def)
next
  case (Cons t ts p ps)
  then show ?case by (auto simp: tp_sum_def predicted_sum_def)
qed

lemma predicted_sum_split:
  "length y_true = length y_pred \<Longrightarrow> set y_true \<subseteq> {0, 1} \<Longrightarrow>
   predicted_sum y_pred = TP y_true y_pred + FP y_true y_pred"
proof (induction y_true y_pred rule: list_induct2)
  case Nil
  show ?case by (simp add: predicted_sum_def TP_def FP_def)
next
  case (Cons t ts p ps)
  then show ?case by (auto simp: predicted_sum_def TP_def FP_def)
qed

lemma binary_labels_accepted:
  fixes y_true y_pred :: "int list"
  assumes "set y_true \<subseteq> {0, 1}" and "set y_pred \<subseteq> {0, 1}"
  shows "length (remdups (y_true @ y_pred)) \<le> 2"
    and "1 \<in> set (remdups (y_true @ y_pred)) \<or> length (remdups (y_true @ y_pred)) < 2"
proof -
  let ?S = "set (y_true @ y_pred)"
  have len: "length (remdups (y_true @ y_pred)) = card ?S"
    by (rule length_remdups_card_conv)
  have sub: "?S \<subseteq> {0, 1}" using assms by auto
  have "card ?S \<le> card {0, 1::int}"
    using sub by (intro card_mono) auto
  then show "length (remdups (y_true @ y_pred)) \<le> 2"
    using len by simp
  show "1 \<in> set (remdups (y_true @ y_pred)) \<or> length (remdups (y_true @ y_pred)) < 2"
  proof (cases "1 \<in> ?S")
    case True
    then show ?thesis by simp
  next
    case False
    with sub have "?S \<subseteq> {0}" by auto
    then have "card ?S \<le> card {0::int}" by (intro card_mono) auto
    then show ?thesis using len by simp
  qed
qed

lemma predicted_sum_zero_iff: "predicted_sum (binary_predictions ps) = 0 \<longleftrightarrow> (\<forall>p \<in> set ps. \<not> p > 0.5)"
  by (simp add: predicted_sum_def binary_predictions_def binarize_def filter_empty_conv)

lemma no_positive_iff: "1 \<notin> set y_pred \<longleftrightarrow> predicted_sum y_pred = 0"
  by (auto simp: predicted_sum_def filter_empty_conv)

lemma truncate_magnitude:
  "\<bar>real_of_int (truncate_toward_zero x)\<bar> \<le> \<bar>x\<bar> \<and>
   \<bar>x - real_of_int (truncate_toward_zero x)\<bar> < 1"
proof (cases "0 \<le> x")
  case True
  then have "0 \<le> \<lfloor>x\<rfloor>" by simp
  with True show ?thesis
    unfolding truncate_toward_zero_def by (simp; linarith)
next
  case False
  then have "\<lceil>x\<rceil> \<le> 0" by (simp add: ceiling_le_iff)
  with False show ?thesis
    unfolding truncate_toward_zero_def by (simp; linarith)
qed

lemma astype_int_fits:
  assumes "- (2 ^ 63) - 1 < x" and "x < 2 ^ 63"
  shows "astype_int x = truncate_toward_zero x"
proof -
  have "\<lfloor>x\<rfloor> < 2 ^ 63"
    using assms(2) by (simp add: floor_less_iff)
  moreover have "- (2 ^ 63) \<le> \<lceil>x\<rceil>"
    using assms(1) by (simp add: le_ceiling_iff)
  moreover have "\<lfloor>x\<rfloor> \<le> \<lceil>x\<rceil>" by (rule floor_le_ceiling)
  ultimately show ?thesis
    by (simp add: astype_int_def truncate_toward_zero_def INT64_MIN_def Let_def)
qed

lemma astype_int_overflow:
  assumes "x \<le> - (2 ^ 63) - 1 \<or> 2 ^ 63 \<le> x"
  shows "astype_int x = INT64_MIN"
proof -
  from assms have "\<lceil>x\<rceil> < - (2 ^ 63) \<or> 2 ^ 63 \<le> \<lfloor>x\<rfloor>"
    by (auto simp: ceiling_less_iff le_floor_iff)
  moreover have "\<lfloor>x\<rfloor> \<le> \<lceil>x\<rceil>" by (rule floor_le_ceiling)
  ultimately show ?thesis
    using assms
    by (auto simp: astype_int_def truncate_toward_zero_def INT64_MIN_def Let_def)
qed

lemma astype_int_int64: "INT64_MIN \<le> astype_int x \<and> astype_int x < 2 ^ 63"
  by (simp add: astype_int_def INT64_MIN_def Let_def)

lemma astype_int_unit_interval: "0 < x \<Longrightarrow> x < 1 \<Longrightarrow> astype_int x = 0"
  by (simp add: astype_int_def truncate_toward_zero_def INT64_MIN_def Let_def floor_eq_iff)

text \<open>
  C8. Binarization uses a strict threshold in both scripts: a value is turned into the
  prediction 1 exactly when it is greater than 0.5, the value 0.5 itself becomes 0, and
  this holds at every position of the vector of predictions, for the forecast output of
  the LightGBM script and for the sigmoid output of the TSMixer script.
\<close>

theorem binarize_strict_threshold:
  "(binarize p = 1 \<longleftrightarrow> p > 0.5) \<and> (binarize p = 0 \<longleftrightarrow> p \<le> 0.5) \<and> binarize 0.5 = 0 \<and>
   list_all2 (\<lambda>q b. (b = 1 \<longleftrightarrow> q > 0.5) \<and> (b = 0 \<longleftrightarrow> q \<le> 0.5)) ps (binary_predictions ps) \<and>
   list_all2 (\<lambda>x b. (b = 1 \<longleftrightarrow> sigmoid x > 0.5) \<and> (b = 0 \<longleftrightarrow> sigmoid x \<le> 0.5))
     (values_flatten pred_series) (tsmixer_binary_predictions sigmoid pred_series)"
  by (auto simp: binarize_def binary_predictions_def tsmixer_binary_predictions_def
      list_all2_map2 intro: list_all2_refl)

theorem binarize_strict_threshold_witness:
  "binarize 0.5 = 0 \<and> binarize 0.6 = 1 \<and>
   binary_predictions [0.9, 0.1, 0.6, 0.4, 0.5] = [1, 0, 1, 0, 0]"
  using binarize_strict_threshold [of "0.6" "[0.9, 0.1, 0.6, 0.4, 0.5]"]
  by (simp add: binary_predictions_def binarize_def)

text \<open>
  C10. The ground-truth labels are the test values cast to int with no check of the values:
  there is one label for every value of the evaluation window, whatever the value is, so
  nothing is rejected. The label is a 64-bit integer; for a value whose truncation fits in
  64 bits it is the value with its fraction removed (rounding toward zero), otherwise it is
  the least 64-bit integer; and every value strictly between 0 and 1 gets the label 0.
\<close>

theorem true_labels_truncate_unchecked:
  "list_all2
     (\<lambda>v l. l = astype_int v \<and> INT64_MIN \<le> l \<and> l < 2 ^ 63 \<and>
            (- (2 ^ 63) - 1 < v \<and> v < 2 ^ 63 \<longrightarrow>
               l = truncate_toward_zero v \<and>
               \<bar>real_of_int l\<bar> \<le> \<bar>v\<bar> \<and> \<bar>v - real_of_int l\<bar> < 1) \<and>
            (v \<le> - (2 ^ 63) - 1 \<or> 2 ^ 63 \<le> v \<longrightarrow> l = INT64_MIN) \<and>
            (0 < v \<and> v < 1 \<longrightarrow> l = 0))
     (values_flatten (py_slice_from test_series (- PRED_STEPS)))
     (true_labels PRED_STEPS test_series)"
  unfolding true_labels_def list_all2_map2
proof (rule list_all2_refl, intro conjI impI)
  fix v :: real
  show "astype_int v = astype_int v" by simp
  show "INT64_MIN \<le> astype_int v" and "astype_int v < 2 ^ 63"
    using astype_int_int64 [of v] by simp_all
  show "astype_int v = 0" if "0 < v \<and> v < 1"
    using that by (simp add: astype_int_unit_interval)
  show "astype_int v = INT64_MIN" if "v \<le> - (2 ^ 63) - 1 \<or> 2 ^ 63 \<le> v"
    using that by (rule astype_int_overflow)
  assume fits: "- (2 ^ 63) - 1 < v \<and> v < 2 ^ 63"
  then have eq: "astype_int v = truncate_toward_zero v"
    by (simp add: astype_int_fits)
  then show "astype_int v = truncate_toward_zero v" .
  show "\<bar>real_of_int (astype_int v)\<bar> \<le> \<bar>v\<bar>"
    and "\<bar>v - real_of_int (astype_int v)\<bar> < 1"
    using truncate_magnitude [of v] by (simp_all add: eq)
qed

theorem true_labels_truncate_unchecked_witness:
  "true_labels 4 [(1::nat, [1]), (2, [0.7]), (3, [2.5]), (4, [-1.5]), (5, [10 ^ 19])]
     = [0, 2, -1, - (2 ^ 63)]"
proof -
  have "list_all2 (\<lambda>v l. l = astype_int v)
     (values_flatten (py_slice_from [(1::nat, [1]), (2, [0.7]), (3, [2.5]), (4, [-1.5]), (5, [10 ^ 19])] (- 4)))
     (true_labels 4 [(1::nat, [1]), (2, [0.7]), (3, [2.5]), (4, [-1.5]), (5, [10 ^ 19])])"
    by (rule list_all2_mono [OF true_labels_truncate_unchecked]) simp
  then show ?thesis
    by (simp add: values_flatten_def py_slice_from_def list_all2_Cons1
        astype_int_def truncate_toward_zero_def INT64_MIN_def Let_def)
qed

lemma precision_score_binary_vectors:
  assumes "length y_true = length y_pred"
    and "set y_true \<subseteq> {0, 1}" and "set y_pred \<subseteq> {0, 1}"
  shows "precision_score y_true y_pred = Inr (spec_precision y_true y_pred)"
    and "0 \<le> spec_precision y_true y_pred" and "spec_precision y_true y_pred \<le> 1"
    and "1 \<notin> set y_pred \<Longrightarrow> spec_precision y_true y_pred = 0"
proof -
  have split: "predicted_sum y_pred = TP y_true y_pred + FP y_true y_pred"
    using assms(1,2) by (rule predicted_sum_split)
  have tp: "tp_sum y_true y_pred = TP y_true y_pred"
    by (simp add: tp_sum_def TP_def)
  show "precision_score y_true y_pred = Inr (spec_precision y_true y_pred)"
    using assms(1) binary_labels_accepted [OF assms(2,3)] split tp
    by (auto simp: precision_score_def spec_precision_def Let_def)
  show "0 \<le> spec_precision y_true y_pred"
    by (simp add: spec_precision_def)
  show "spec_precision y_true y_pred \<le> 1"
    by (simp add: spec_precision_def divide_le_eq_1)
  show "spec_precision y_true y_pred = 0" if "1 \<notin> set y_pred"
    using that split by (simp add: spec_precision_def no_positive_iff)
qed

lemma no_positive_binarized: "1 \<notin> set (map binarize ps) \<longleftrightarrow> (\<forall>p \<in> set ps. \<not> p > 0.5)"
  by (auto simp: binarize_def)

lemma set_map_binarize: "set (map binarize ps) \<subseteq> {0, 1}"
  by (auto simp: binarize_def)

section \<open>Properties of the floating-point sigmoid\<close>

lemma round_half_even_ge: "of_int n \<le> r \<Longrightarrow> n \<le> round_half_even r"
proof -
  assume "of_int n \<le> r"
  then have "n \<le> \<lfloor>r\<rfloor>" by (simp add: le_floor_iff)
  then show ?thesis by (auto simp: round_half_even_def Let_def)
qed

lemma round_half_even_le: "r \<le> of_int n \<Longrightarrow> round_half_even r \<le> n"
proof -
  assume le: "r \<le> of_int n"
  show ?thesis
  proof (cases "r = of_int n")
    case True
    then show ?thesis by (simp add: round_half_even_def)
  next
    case False
    with le have "r < of_int n" by simp
    then have "\<lfloor>r\<rfloor> < n" by (simp add: floor_less_iff)
    then show ?thesis by (auto simp: round_half_even_def Let_def)
  qed
qed

lemma round_half_even_above_half: "of_int n + 1 / 2 < r \<Longrightarrow> n + 1 \<le> round_half_even r"
proof -
  assume gt: "of_int n + 1 / 2 < r"
  then have "n \<le> \<lfloor>r\<rfloor>" by (simp add: le_floor_iff)
  then consider "n + 1 \<le> \<lfloor>r\<rfloor>" | "\<lfloor>r\<rfloor> = n" by linarith
  then show ?thesis
  proof cases
    case 1
    then show ?thesis by (auto simp: round_half_even_def Let_def)
  next
    case 2
    with gt show ?thesis by (auto simp: round_half_even_def Let_def)
  qed
qed

lemma round_half_even_below_half: "of_int n - 1 / 2 < r \<Longrightarrow> n \<le> round_half_even r"
  using round_half_even_above_half [of "n - 1" r] by simp

lemma binade_eq:
  assumes "2 powr of_int k \<le> y" and "y < 2 powr (of_int k + 1)"
  shows "binade y = k"
proof -
  have pos: "0 < y" using assms(1) powr_gt_zero [of 2 "of_int k"] by linarith
  have "of_int k \<le> log 2 y" using assms(1) pos by (simp add: le_log_iff)
  moreover have "log 2 y < of_int k + 1" using assms(2) pos by (simp add: log_less_iff)
  ultimately show ?thesis
    using pos by (simp add: binade_def floor_eq_iff)
qed

lemma binade_bounds:
  assumes "0 < y"
  shows "2 powr of_int (binade y) \<le> y" and "y < 2 powr (of_int (binade y) + 1)"
proof -
  have "of_int (binade y) \<le> log 2 y" using assms by (simp add: binade_def)
  then show "2 powr of_int (binade y) \<le> y" using assms by (simp add: le_log_iff)
  have "log 2 y < of_int (binade y) + 1" using assms by (simp add: binade_def)
  then show "y < 2 powr (of_int (binade y) + 1)" using assms by (simp add: log_less_iff)
qed


lemma ulp_pos: "0 < ulp p y"
  by (simp add: ulp_def)

lemma pow_over_ulp:
  assumes "0 < p"
  shows "2 powr of_int (binade y) / ulp p y = 2 ^ (p - 1)"
    and "2 powr (of_int (binade y) + 1) / ulp p y = 2 ^ p"
proof -
  have "2 powr of_int (binade y) / ulp p y
      = 2 powr (of_int (binade y) - of_int (binade y - int p + 1))"
    by (simp only: ulp_def powr_diff)
  also have "\<dots> = 2 powr real (p - 1)"
    using assms by (simp add: of_nat_diff)
  also have "\<dots> = 2 ^ (p - 1)" by (simp add: powr_realpow)
  finally show "2 powr of_int (binade y) / ulp p y = 2 ^ (p - 1)" .
  have "2 powr (of_int (binade y) + 1) / ulp p y
      = 2 powr (of_int (binade y) + 1 - of_int (binade y - int p + 1))"
    by (simp only: ulp_def powr_diff)
  also have "\<dots> = 2 powr real p"
    by simp
  also have "\<dots> = 2 ^ p" by (simp add: powr_realpow)
  finally show "2 powr (of_int (binade y) + 1) / ulp p y = 2 ^ p" .
qed

lemma float_round_ge_pow:
  assumes "0 < p" and "0 < y" and "2 powr of_int k \<le> y"
  shows "2 powr of_int k \<le> float_round p y"
proof -
  let ?e = "binade y"
  let ?u = "ulp p y"
  have u: "0 < ?u" by (rule ulp_pos)
  have e: "2 powr of_int ?e \<le> y" using assms(2) by (rule binade_bounds)
  have "of_int k \<le> log 2 y" using assms(2,3) by (simp add: le_log_iff)
  then have ke: "k \<le> ?e" using assms(2) by (simp add: binade_def le_floor_iff)
  note pw = pow_over_ulp(1) [OF assms(1), of y]
  have "2 powr of_int ?e / ?u \<le> y / ?u"
    using e u by (simp add: divide_right_mono)
  then have "of_int (2 ^ (p - 1)) \<le> y / ?u"
    by (simp add: pw)
  then have "2 ^ (p - 1) \<le> round_half_even (y / ?u)"
    by (rule round_half_even_ge)
  then have step: "of_int (2 ^ (p - 1)) * ?u \<le> of_int (round_half_even (y / ?u)) * ?u"
    using u by (simp only: mult_le_cancel_right_pos of_int_le_iff)
  have "2 powr of_int k \<le> (2::real) powr of_int ?e"
    using ke by simp
  also have "\<dots> = of_int (2 ^ (p - 1)) * ?u"
    using pw u by (simp add: field_simps)
  also note step
  also have "of_int (round_half_even (y / ?u)) * ?u = float_round p y"
    using assms(2) by (simp add: float_round_def)
  finally show ?thesis .
qed

lemma float_round_le_next_pow:
  assumes "0 < p" and "0 < y"
  shows "float_round p y \<le> 2 powr (of_int (binade y) + 1)"
proof -
  let ?e = "binade y"
  let ?u = "ulp p y"
  have u: "0 < ?u" by (rule ulp_pos)
  have "y < 2 powr (of_int ?e + 1)" using assms(2) by (rule binade_bounds)
  then have "y / ?u \<le> 2 powr (of_int ?e + 1) / ?u"
    using u by (simp add: divide_right_mono)
  then have "y / ?u \<le> of_int (2 ^ p)"
    by (simp add: pow_over_ulp(2) [OF assms(1)])
  then have "round_half_even (y / ?u) \<le> 2 ^ p"
    by (rule round_half_even_le)
  then have step: "of_int (round_half_even (y / ?u)) * ?u \<le> of_int (2 ^ p) * ?u"
    using u by (simp only: mult_le_cancel_right_pos of_int_le_iff)
  have "float_round p y = of_int (round_half_even (y / ?u)) * ?u"
    using assms(2) by (simp add: float_round_def)
  also note step
  also have "of_int (2 ^ p) * ?u = 2 powr (of_int ?e + 1)"
    using pow_over_ulp(2) [OF assms(1), of y] u by (simp add: field_simps)
  finally show ?thesis .
qed

lemma float_round_pow:
  assumes "0 < p"
  shows "float_round p (2 powr of_int k) = 2 powr of_int k"
proof -
  let ?y = "2 powr of_int k :: real"
  have e: "binade ?y = k"
    by (rule binade_eq) simp_all
  have "?y / ulp p ?y = of_int (2 ^ (p - 1))"
    using pow_over_ulp(1) [OF assms, of ?y] by (simp add: e)
  then have r: "round_half_even (?y / ulp p ?y) = 2 ^ (p - 1)"
    by (simp add: round_half_even_def)
  have "of_int (2 ^ (p - 1)) * ulp p ?y = ?y"
    using pow_over_ulp(1) [OF assms, of ?y] ulp_pos [of p ?y] by (simp add: e field_simps)
  then show ?thesis
    by (simp add: float_round_def r)
qed

lemma float_round_le_pow:
  assumes "0 < p" and "0 < y" and "y \<le> 2 powr of_int k"
  shows "float_round p y \<le> 2 powr of_int k"
proof (cases "y = 2 powr of_int k")
  case True
  then show ?thesis using float_round_pow [OF assms(1), of k] by simp
next
  case False
  with assms(3) have "y < 2 powr of_int k" by simp
  then have "log 2 y < of_int k" using assms(2) by (simp add: log_less_iff)
  then have "binade y < k" using assms(2) by (simp add: binade_def floor_less_iff)
  then have "of_int (binade y) + 1 \<le> (of_int k :: real)" by linarith
  then have "2 powr (of_int (binade y) + 1) \<le> (2::real) powr of_int k"
    by simp
  with float_round_le_next_pow [OF assms(1,2)] show ?thesis by linarith
qed


lemma ulp_binade: "binade y = k \<Longrightarrow> ulp p y = 2 powr of_int (k - int p + 1)"
  by (simp add: ulp_def)

lemma ulp_below_one: "1 / 2 \<le> y \<Longrightarrow> y < 1 \<Longrightarrow> ulp p y = 1 / 2 ^ p"
proof -
  assume "1 / 2 \<le> y" "y < 1"
  then have "binade y = - 1"
    by (intro binade_eq) (simp_all add: powr_minus_divide)
  then have "ulp p y = 2 powr (- real p)"
    by (simp add: ulp_def)
  then show ?thesis
    by (simp add: powr_minus_divide powr_realpow)
qed

lemma ulp_above_one: "0 < p \<Longrightarrow> 1 \<le> y \<Longrightarrow> y < 2 \<Longrightarrow> ulp p y = 2 / 2 ^ p"
proof -
  assume p: "0 < p" and "1 \<le> y" "y < 2"
  then have "binade y = 0"
    by (intro binade_eq) simp_all
  then have "ulp p y = 2 powr (1 - real p)"
    by (simp add: ulp_def)
  also have "\<dots> = 2 powr 1 / 2 powr real p"
    by (simp only: powr_diff)
  finally show ?thesis
    by (simp add: powr_realpow)
qed

lemma float_round_le_grid:
  assumes "0 < y" and "y / ulp p y \<le> of_int m"
  shows "float_round p y \<le> of_int m * ulp p y"
proof -
  have "round_half_even (y / ulp p y) \<le> m"
    using assms(2) by (rule round_half_even_le)
  then have "of_int (round_half_even (y / ulp p y)) * ulp p y \<le> of_int m * ulp p y"
    using ulp_pos [of p y] by (simp only: mult_le_cancel_right_pos of_int_le_iff)
  then show ?thesis
    using assms(1) by (simp add: float_round_def)
qed

lemma float_round_ge_grid:
  assumes "0 < y" and "m \<le> round_half_even (y / ulp p y)"
  shows "of_int m * ulp p y \<le> float_round p y"
proof -
  have "of_int m * ulp p y \<le> of_int (round_half_even (y / ulp p y)) * ulp p y"
    using assms(2) ulp_pos [of p y] by (simp only: mult_le_cancel_right_pos of_int_le_iff)
  then show ?thesis
    using assms(1) by (simp add: float_round_def)
qed

lemma float_round_pos: "0 < p \<Longrightarrow> 0 < y \<Longrightarrow> 0 < float_round p y"
proof -
  assume p: "0 < p" and y: "0 < y"
  have "2 powr of_int (binade y) \<le> float_round p y"
    using p y binade_bounds(1) [OF y] by (rule float_round_ge_pow)
  moreover have "0 < (2::real) powr of_int (binade y)" by simp
  ultimately show ?thesis by linarith
qed

lemma float_round_numerals:
  assumes "0 < p"
  shows "float_round p 1 = 1" and "float_round p 2 = 2" and "float_round p (1 / 2) = 1 / 2"
  using float_round_pow [OF assms, of 0] float_round_pow [OF assms, of 1]
    float_round_pow [OF assms, of "- 1"]
  by (simp_all add: powr_minus_divide)

lemma sigmoid_torch_nonpositive:
  assumes "0 < p" and "x \<le> 0"
  shows "sigmoid_torch p x \<le> 1 / 2"
proof -
  let ?a = "float_round p (exp (- x))"
  let ?t = "float_round p (1 + ?a)"
  have "2 powr of_int 0 \<le> exp (- x)" using assms(2) by simp
  then have "2 powr of_int 0 \<le> ?a"
    by (intro float_round_ge_pow assms(1)) simp_all
  then have a: "1 \<le> ?a" by simp
  then have "2 powr of_int 1 \<le> 1 + ?a" by simp
  then have "2 powr of_int 1 \<le> ?t"
    using a by (intro float_round_ge_pow assms(1)) simp_all
  then have t: "2 \<le> ?t" by simp
  then have "0 < 1 / ?t" and "1 / ?t \<le> 2 powr of_int (- 1)"
    by (simp_all add: powr_minus_divide field_simps)
  then have "float_round p (1 / ?t) \<le> 2 powr of_int (- 1)"
    by (intro float_round_le_pow assms(1))
  then show ?thesis
    by (simp add: sigmoid_torch_def powr_minus_divide)
qed

lemma sigmoid_torch_tiny:
  assumes "0 < p" and "0 < x" and "x < 1 / 2 ^ (p + 1)"
  shows "sigmoid_torch p x = 1 / 2"
proof -
  let ?y = "exp (- x)"
  have small: "x * 2 ^ p < 1 / 2"
    using assms(3) by (simp add: field_simps)
  have "(1::real) \<le> 2 ^ p" by simp
  then have "x \<le> x * 2 ^ p" using assms(2) by simp
  with small have x: "x < 1 / 2" by linarith
  have lower: "1 - x \<le> ?y" using exp_ge_add_one_self [of "- x"] by simp
  have upper: "?y < 1" using assms(2) by simp
  have u: "ulp p ?y = 1 / 2 ^ p"
    using lower upper x by (intro ulp_below_one) simp_all
  have ratio: "?y / ulp p ?y = ?y * 2 ^ p" by (simp add: u)
  have "(1 - x) * 2 ^ p \<le> ?y * 2 ^ p" using lower by simp
  then have "of_int (2 ^ p) - 1 / 2 < ?y / ulp p ?y"
    using small by (simp add: ratio algebra_simps)
  then have ge: "2 ^ p \<le> round_half_even (?y / ulp p ?y)"
    by (rule round_half_even_below_half)
  have "?y / ulp p ?y \<le> of_int (2 ^ p)"
    using upper by (simp add: ratio)
  then have "round_half_even (?y / ulp p ?y) \<le> 2 ^ p"
    by (rule round_half_even_le)
  with ge have "round_half_even (?y / ulp p ?y) = 2 ^ p" by simp
  then have "float_round p ?y = 1"
    by (simp add: float_round_def u)
  then show ?thesis
    using float_round_numerals [OF assms(1)] by (simp add: sigmoid_torch_def)
qed


lemma exp_neg_below:
  fixes d x :: real
  assumes "0 \<le> d" and "d \<le> 1 / 2" and "2 * d \<le> x"
  shows "exp (- x) \<le> 1 - d"
proof -
  have x: "0 \<le> x" using assms by linarith
  have "1 + x \<le> exp x" by (rule exp_ge_add_one_self)
  then have "exp (- x) \<le> 1 / (1 + x)"
    using x by (simp add: exp_minus field_simps)
  also have "\<dots> \<le> 1 - d"
  proof -
    have "d * x \<le> (1 / 2) * x" using assms(2) x by (intro mult_right_mono) simp_all
    then have "1 \<le> (1 - d) * (1 + x)" using assms by (simp add: algebra_simps)
    then show ?thesis using x by (simp add: field_simps)
  qed
  finally show ?thesis .
qed

lemma sigmoid_torch_positive:
  assumes "2 \<le> p" and "4 / 2 ^ p \<le> x"
  shows "1 / 2 < sigmoid_torch p x"
proof -
  define d :: real where "d = 2 / 2 ^ p"
  let ?y = "exp (- x)"
  let ?a = "float_round p ?y"
  let ?s = "1 + ?a"
  let ?t = "float_round p ?s"
  have p: "0 < p" using assms(1) by simp
  have "(2::real) ^ 2 \<le> 2 ^ p" using assms(1) by (intro power_increasing) simp_all
  then have four: "(4::real) \<le> 2 ^ p" by simp
  have d: "0 < d" "d \<le> 1 / 2" using four by (simp_all add: d_def field_simps)
  have grid: "(1 - d) * 2 ^ p = of_int (2 ^ p - 2)" "(2 - d) / d = of_int (2 ^ p - 1)"
    by (simp_all add: d_def field_simps)
  have inv: "1 / 2 ^ p = d / 2" by (simp add: d_def)
  have "2 * d \<le> x" using assms(2) by (simp add: d_def)
  then have y: "0 < ?y" "?y \<le> 1 - d"
    using exp_neg_below [of d x] d by simp_all
  have a_pos: "0 < ?a" using p y(1) by (rule float_round_pos)
  have a_le: "?a \<le> 1 - d"
  proof (cases "?y < 1 / 2")
    case True
    then have "?y \<le> 2 powr of_int (- 1)" by (simp add: powr_minus_divide)
    then have "?a \<le> 2 powr of_int (- 1)"
      by (intro float_round_le_pow p) simp_all
    then have "?a \<le> 1 / 2" by (simp add: powr_minus_divide)
    with d(2) show ?thesis by linarith
  next
    case False
    then have "1 / 2 \<le> ?y" by simp
    moreover have "?y < 1" using y(2) d(1) by linarith
    ultimately have u: "ulp p ?y = 1 / 2 ^ p"
      by (rule ulp_below_one)
    have "?y * 2 ^ p \<le> (1 - d) * 2 ^ p" using y(2) by simp
    then have "?y / ulp p ?y \<le> of_int (2 ^ p - 2)"
      by (simp only: u grid(1)) simp
    then have "?a \<le> of_int (2 ^ p - 2) * ulp p ?y"
      using y(1) by (intro float_round_le_grid)
    also have "\<dots> = 1 - d"
      by (simp only: u grid(1) [symmetric]) simp
    finally show ?thesis .
  qed
  have s: "1 \<le> ?s" "?s < 2" using a_pos a_le d(1) by linarith+
  have t_ge: "1 \<le> ?t"
    using float_round_ge_pow [OF p, of ?s 0] s by simp
  have t_le: "?t \<le> 2 - d"
  proof -
    have u: "ulp p ?s = d" unfolding d_def using p s by (rule ulp_above_one)
    have "?s \<le> 2 - d" using a_le by linarith
    moreover have "0 \<le> d" using d(1) by linarith
    ultimately have "?s / d \<le> (2 - d) / d"
      by (rule divide_right_mono)
    then have "?s / ulp p ?s \<le> of_int (2 ^ p - 1)"
      by (simp only: u grid(2))
    then have "?t \<le> of_int (2 ^ p - 1) * ulp p ?s"
      using s by (intro float_round_le_grid) linarith
    also have "\<dots> = 2 - d"
      using d(1) by (simp only: u grid(2) [symmetric]) simp
    finally show ?thesis .
  qed
  define q where "q = 1 / ?t"
  have sig: "sigmoid_torch p x = float_round p q"
    by (simp add: sigmoid_torch_def q_def)
  have q_le: "q \<le> 1" using t_ge by (simp add: q_def)
  have q_gt: "(1 + d / 2) / 2 < q"
  proof -
    have "(1 + d / 2) * ?t \<le> (1 + d / 2) * (2 - d)"
      using t_le d(1) by (intro mult_left_mono) simp_all
    also have "\<dots> = 2 - d * d / 2" by (simp add: field_simps)
    also have "\<dots> < 2" using d(1) by simp
    finally have "(1 + d / 2) * ?t < 2" .
    then show ?thesis using t_ge by (simp add: q_def field_simps)
  qed
  show ?thesis
  proof (cases "q = 1")
    case True
    then show ?thesis
      using float_round_numerals(1) [OF p] by (simp add: sig)
  next
    case False
    from q_le False have q1: "q < 1" by (rule le_neq_trans)
    have "1 / 2 < (1 + d / 2) / 2" using d(1) by simp
    with q_gt have q2: "1 / 2 \<le> q" by (simp only: less_imp_le less_trans)
    then have q0: "0 < q" by linarith
    have u: "ulp p q = d / 2" using q2 q1 by (simp only: ulp_below_one inv)
    have half: "1 / d = of_int (2 ^ (p - 1))"
      using p by (cases p) (simp_all add: d_def)
    have "((1 + d / 2) / 2) / (d / 2) < q / (d / 2)"
      using q_gt d(1) by (intro divide_strict_right_mono) simp_all
    moreover have "((1 + d / 2) / 2) / (d / 2) = 1 / d + 1 / 2"
      using d(1) by (simp add: field_simps)
    ultimately have "of_int (2 ^ (p - 1)) + 1 / 2 < q / ulp p q"
      by (simp only: u half)
    then have "2 ^ (p - 1) + 1 \<le> round_half_even (q / ulp p q)"
      by (rule round_half_even_above_half)
    then have "of_int (2 ^ (p - 1) + 1) * ulp p q \<le> float_round p q"
      using q0 by (intro float_round_ge_grid)
    moreover have "of_int (2 ^ (p - 1) + 1) * ulp p q = (1 / d + 1) * (d / 2)"
      by (simp only: u half of_int_add of_int_1)
    moreover have "(1 / d + 1) * (d / 2) = 1 / 2 + d / 2"
      using d(1) by (simp add: field_simps)
    ultimately have "1 / 2 + d / 2 \<le> float_round p q" by simp
    then show ?thesis
      using d(1) by (simp add: sig)
  qed
qed

text \<open>
  C9 (as the code has it). With the sigmoid computed in a floating-point format of p
  significand bits (at least 2), thresholding the sigmoid output at 0.5 gives the prediction
  0 for every raw output x that is not positive, so a prediction 1 implies x > 0, and the
  prediction 1 for every x from 4 / 2 ^ p on. For a positive x below 1 / 2 ^ (p + 1) the
  sigmoid rounds to exactly 0.5 and the prediction is 0. For the exact sigmoid over the
  reals the prediction is 1 exactly when x > 0.
\<close>

theorem sigmoid_threshold_rounded:
  assumes "2 \<le> p"
  shows "(x \<le> 0 \<longrightarrow> binarize (sigmoid_torch p x) = 0) \<and>
         (0 < x \<and> x < 1 / 2 ^ (p + 1) \<longrightarrow> binarize (sigmoid_torch p x) = 0) \<and>
         (4 / 2 ^ p \<le> x \<longrightarrow> binarize (sigmoid_torch p x) = 1) \<and>
         (binarize (sigmoid_torch p x) = 1 \<longrightarrow> 0 < x) \<and>
         (binarize (1 / (1 + exp (- x))) = 1 \<longleftrightarrow> 0 < x) \<and>
         list_all2 (\<lambda>v b. b = binarize (sigmoid_torch p v) \<and> (b = 1 \<longrightarrow> 0 < v))
           (values_flatten pred_series)
           (tsmixer_binary_predictions (sigmoid_torch p) pred_series)"
proof -
  have p: "0 < p" using assms by simp
  have neg: "binarize (sigmoid_torch p v) = 0" if "v \<le> 0" for v
    using sigmoid_torch_nonpositive [OF p that] by (simp add: binarize_def)
  have tiny: "binarize (sigmoid_torch p v) = 0" if "0 < v \<and> v < 1 / 2 ^ (p + 1)" for v
    using sigmoid_torch_tiny [OF p, of v] that by (simp add: binarize_def)
  have pos: "binarize (sigmoid_torch p v) = 1" if "4 / 2 ^ p \<le> v" for v
    using sigmoid_torch_positive [OF assms that] by (simp add: binarize_def)
  have only: "0 < v" if "binarize (sigmoid_torch p v) = 1" for v
  proof (rule ccontr)
    assume "\<not> 0 < v"
    then have "binarize (sigmoid_torch p v) = 0" by (intro neg) simp
    with that show False by simp
  qed
  have exact: "binarize (1 / (1 + exp (- x))) = 1 \<longleftrightarrow> 0 < x"
  proof -
    have "0 < 1 + exp (- x)" by (simp add: add_pos_pos)
    then have "1 / 2 < 1 / (1 + exp (- x)) \<longleftrightarrow> exp (- x) < 1"
      by (simp add: field_simps)
    then show ?thesis by (simp add: binarize_def)
  qed
  have vector: "list_all2 (\<lambda>v b. b = binarize (sigmoid_torch p v) \<and> (b = 1 \<longrightarrow> 0 < v))
           (values_flatten pred_series)
           (tsmixer_binary_predictions (sigmoid_torch p) pred_series)"
    unfolding tsmixer_binary_predictions_def list_all2_map2 map_map
    by (rule list_all2_refl) (simp add: only)
  from neg [of x] tiny [of x] pos [of x] only [of x] exact vector show ?thesis
    by blast
qed

theorem sigmoid_threshold_rounded_witness:
  "binarize (sigmoid_torch 53 1) = 1 \<and> binarize (sigmoid_torch 53 (- 1)) = 0 \<and>
   binarize (sigmoid_torch 24 1) = 1 \<and> binarize (sigmoid_torch 24 0) = 0"
proof -
  have p53: "2 \<le> (53::nat)" and p24: "2 \<le> (24::nat)" by simp_all
  have big53: "(4::real) / 2 ^ 53 \<le> 1" and big24: "(4::real) / 2 ^ 24 \<le> 1" by simp_all
  have "4 / 2 ^ 53 \<le> (1::real) \<longrightarrow> binarize (sigmoid_torch 53 1) = 1"
    using sigmoid_threshold_rounded [OF p53, of 1 "[]"] by blast
  with big53 have a: "binarize (sigmoid_torch 53 1) = 1" by (rule rev_mp)
  have "(- 1::real) \<le> 0 \<longrightarrow> binarize (sigmoid_torch 53 (- 1)) = 0"
    using sigmoid_threshold_rounded [OF p53, of "- 1" "[]"] by blast
  then have b: "binarize (sigmoid_torch 53 (- 1)) = 0" by simp
  have "4 / 2 ^ 24 \<le> (1::real) \<longrightarrow> binarize (sigmoid_torch 24 1) = 1"
    using sigmoid_threshold_rounded [OF p24, of 1 "[]"] by blast
  with big24 have c: "binarize (sigmoid_torch 24 1) = 1" by (rule rev_mp)
  have "(0::real) \<le> 0 \<longrightarrow> binarize (sigmoid_torch 24 0) = 0"
    using sigmoid_threshold_rounded [OF p24, of 0 "[]"] by blast
  then have d: "binarize (sigmoid_torch 24 0) = 0" by simp
  from a b c d show ?thesis by (intro conjI)
qed

text \<open>
  C9 (as stated) fails. The raw output 2 ^ -60 is positive, and in float64 as in float32
  its sigmoid is exactly 0.5, so the prediction is 0.
\<close>

theorem sigmoid_threshold_counterexample:
  "(0::real) < 1 / 2 ^ 60 \<and>
   sigmoid_torch 53 (1 / 2 ^ 60) = 1 / 2 \<and>
   tsmixer_binary_predictions (sigmoid_torch 53) [(0::nat, [1 / 2 ^ 60])] = [0] \<and>
   tsmixer_binary_predictions (sigmoid_torch 24) [(0::nat, [1 / 2 ^ 60])] = [0]"
proof -
  have a: "sigmoid_torch 53 (1 / 2 ^ 60) = 1 / 2"
    by (rule sigmoid_torch_tiny) simp_all
  have b: "sigmoid_torch 24 (1 / 2 ^ 60) = 1 / 2"
    by (rule sigmoid_torch_tiny) simp_all
  have pa: "binarize (sigmoid_torch 53 (1 / 2 ^ 60)) = 0"
    and pb: "binarize (sigmoid_torch 24 (1 / 2 ^ 60)) = 0"
    unfolding a b by (simp_all add: binarize_def)
  have va: "tsmixer_binary_predictions (sigmoid_torch 53) [(0::nat, [1 / 2 ^ 60])]
      = [binarize (sigmoid_torch 53 (1 / 2 ^ 60))]"
    and vb: "tsmixer_binary_predictions (sigmoid_torch 24) [(0::nat, [1 / 2 ^ 60])]
      = [binarize (sigmoid_torch 24 (1 / 2 ^ 60))]"
    by (simp_all add: tsmixer_binary_predictions_def values_flatten_def)
  from a pa pb show ?thesis
    unfolding va vb by simp
qed

section \<open>Properties of one trial\<close>

lemma map_py_slice_from: "map f (py_slice_from s i) = py_slice_from (map f s) i"
  by (simp add: py_slice_from_def Let_def drop_map)

lemma values_flatten_slice:
  "values_flatten (py_slice_from s i) = concat (py_slice_from (map snd s) i)"
  by (simp add: values_flatten_def map_py_slice_from)

lemma trial_returns_precision:
  assumes "model_fit m (fit_call data) = Inr ()"
    and "py_index (time_index (test data)) (- n) = Inr first"
    and "model_historical_forecasts m (backtest_call data first) = Inr bt"
    and "plotting m = Inr ()"
  shows "snd (train_and_evaluate m n data) = lightgbm_precision n (test data) bt"
  using assms
  by (simp add: train_and_evaluate_def lightgbm_precision_def fit_call_def backtest_call_def
      Let_def split: sum.splits)

text \<open>
  C3. When the ground-truth labels are 0 or 1 and there is one prediction per label, the
  precision the scripts compute is obtained without an exception, it is TP / (TP + FP)
  over the labels and the binarized predictions (0 when TP + FP = 0), it lies between 0
  and 1, and it is 0 when no value exceeds the threshold 0.5, that is when there is no
  positive prediction. In the LightGBM script this precision is what the trial returns
  once fitting, the backtest and the plotting have returned; in the TSMixer script it is
  the precision of line 116.
\<close>

theorem computed_precision:
  assumes "set (true_labels n (test data)) \<subseteq> {0, 1}"
    and "true_labels n (test data) \<noteq> []"
  shows "(model_fit m (fit_call data) = Inr () \<and>
          py_index (time_index (test data)) (- n) = Inr first \<and>
          model_historical_forecasts m (backtest_call data first) = Inr bt \<and>
          plotting m = Inr () \<and>
          length (true_labels n (test data)) = length (values_flatten (py_slice_from bt (- n))) \<longrightarrow>
          snd (train_and_evaluate m n data) = lightgbm_precision n (test data) bt \<and>
          (\<exists>prec. snd (train_and_evaluate m n data) = Inr prec \<and>
             prec = spec_precision (true_labels n (test data))
                      (binary_predictions (values_flatten (py_slice_from bt (- n)))) \<and>
             0 \<le> prec \<and> prec \<le> 1 \<and>
             ((\<forall>p \<in> set (values_flatten (py_slice_from bt (- n))). \<not> p > 0.5) \<longrightarrow> prec = 0))) \<and>
         (length (true_labels n (test data)) = length (values_flatten pred_series) \<longrightarrow>
          (\<exists>prec. tsmixer_precision sigmoid n (test data) pred_series = Inr prec \<and>
             prec = spec_precision (true_labels n (test data))
                      (tsmixer_binary_predictions sigmoid pred_series) \<and>
             0 \<le> prec \<and> prec \<le> 1 \<and>
             ((\<forall>x \<in> set (values_flatten pred_series). \<not> sigmoid x > 0.5) \<longrightarrow> prec = 0)))"
proof (intro conjI impI)
  let ?labels = "true_labels n (test data)"
  let ?preds = "binary_predictions (values_flatten (py_slice_from bt (- n)))"
  assume run: "model_fit m (fit_call data) = Inr () \<and>
          py_index (time_index (test data)) (- n) = Inr first \<and>
          model_historical_forecasts m (backtest_call data first) = Inr bt \<and>
          plotting m = Inr () \<and>
          length ?labels = length (values_flatten (py_slice_from bt (- n)))"
  then have "model_fit m (fit_call data) = Inr ()"
    and "py_index (time_index (test data)) (- n) = Inr first"
    and "model_historical_forecasts m (backtest_call data first) = Inr bt"
    and "plotting m = Inr ()"
    by simp_all
  then show link: "snd (train_and_evaluate m n data) = lightgbm_precision n (test data) bt"
    by (rule trial_returns_precision)
  from run have len: "length ?labels = length ?preds"
    by (simp add: binary_predictions_def)
  have bin: "set ?preds \<subseteq> {0, 1}"
    by (rule set_binary_predictions)
  note facts = precision_score_binary_vectors [OF len assms(1) bin]
  have "(\<forall>p \<in> set (values_flatten (py_slice_from bt (- n))). \<not> p > 0.5)
      \<longrightarrow> spec_precision ?labels ?preds = 0"
  proof
    assume "\<forall>p \<in> set (values_flatten (py_slice_from bt (- n))). \<not> p > 0.5"
    then have "1 \<notin> set ?preds"
      unfolding binary_predictions_def by (simp only: no_positive_binarized)
    then show "spec_precision ?labels ?preds = 0" by (rule facts(4))
  qed
  with facts(1-3) show "\<exists>prec. snd (train_and_evaluate m n data) = Inr prec \<and>
             prec = spec_precision ?labels ?preds \<and> 0 \<le> prec \<and> prec \<le> 1 \<and>
             ((\<forall>p \<in> set (values_flatten (py_slice_from bt (- n))). \<not> p > 0.5) \<longrightarrow> prec = 0)"
    by (simp add: link lightgbm_precision_def)
next
  let ?labels = "true_labels n (test data)"
  let ?preds = "tsmixer_binary_predictions sigmoid pred_series"
  assume "length ?labels = length (values_flatten pred_series)"
  then have len: "length ?labels = length ?preds"
    by (simp add: tsmixer_binary_predictions_def)
  have bin: "set ?preds \<subseteq> {0, 1}"
    unfolding tsmixer_binary_predictions_def by (rule set_map_binarize)
  note facts = precision_score_binary_vectors [OF len assms(1) bin]
  have "(\<forall>x \<in> set (values_flatten pred_series). \<not> sigmoid x > 0.5)
      \<longrightarrow> spec_precision ?labels ?preds = 0"
  proof
    assume "\<forall>x \<in> set (values_flatten pred_series). \<not> sigmoid x > 0.5"
    then have "\<forall>p \<in> set (map sigmoid (values_flatten pred_series)). \<not> p > 0.5"
      by simp
    then have "1 \<notin> set ?preds"
      unfolding tsmixer_binary_predictions_def by (simp only: no_positive_binarized)
    then show "spec_precision ?labels ?preds = 0" by (rule facts(4))
  qed
  with facts(1-3) show "\<exists>prec. tsmixer_precision sigmoid n (test data) pred_series = Inr prec \<and>
             prec = spec_precision ?labels ?preds \<and> 0 \<le> prec \<and> prec \<le> 1 \<and>
             ((\<forall>x \<in> set (values_flatten pred_series). \<not> sigmoid x > 0.5) \<longrightarrow> prec = 0)"
    by (simp add: tsmixer_precision_def)
qed

theorem computed_precision_witness:
  "snd (train_and_evaluate
          (fixed_collaborators (Inr [(1, [0.9]), (2, [0.1]), (3, [0.6]), (4, [0.4])]) (Inr ()))
          4 (tail_labels [1, 0, 1, 1])) = Inr 1 \<and>
   snd (train_and_evaluate
          (fixed_collaborators (Inr [(1, [0.5]), (2, [0.1]), (3, [0.2]), (4, [0.4])]) (Inr ()))
          4 (tail_labels [1, 0, 1, 1])) = Inr 0"
proof -
  let ?data = "tail_labels [1, 0, 1, 1]"
  let ?a = "[(1::nat, [0.9::real]), (2, [0.1]), (3, [0.6]), (4, [0.4])]"
  let ?b = "[(1::nat, [0.5::real]), (2, [0.1]), (3, [0.2]), (4, [0.4])]"
  let ?ma = "fixed_collaborators (Inr ?a) (Inr ())"
  let ?mb = "fixed_collaborators (Inr ?b) (Inr ())"
  have labels: "true_labels 4 (test ?data) = [1, 0, 1, 1]"
    by (simp add: run_trial_simps)
  then have bin: "set (true_labels 4 (test ?data)) \<subseteq> {0, 1}"
    and ne: "true_labels 4 (test ?data) \<noteq> []" by simp_all
  have first: "py_index (time_index (test ?data)) (- 4) = Inr 1"
    by (simp add: run_trial_simps)
  have va: "binary_predictions (values_flatten (py_slice_from ?a (- 4))) = [1, 0, 1, 0]"
    and vb: "\<forall>p \<in> set (values_flatten (py_slice_from ?b (- 4))). \<not> p > 0.5"
    by (simp_all add: run_trial_simps)
  have la: "length (true_labels 4 (test ?data)) = length (values_flatten (py_slice_from ?a (- 4)))"
    and lb: "length (true_labels 4 (test ?data)) = length (values_flatten (py_slice_from ?b (- 4)))"
    by (simp_all add: run_trial_simps)
  have ra: "model_fit ?ma (fit_call ?data) = Inr () \<and>
      py_index (time_index (test ?data)) (- 4) = Inr 1 \<and>
      model_historical_forecasts ?ma (backtest_call ?data 1) = Inr ?a \<and>
      plotting ?ma = Inr () \<and>
      length (true_labels 4 (test ?data)) = length (values_flatten (py_slice_from ?a (- 4)))"
    using first la by (simp add: fixed_collaborators_def)
  have rb: "model_fit ?mb (fit_call ?data) = Inr () \<and>
      py_index (time_index (test ?data)) (- 4) = Inr 1 \<and>
      model_historical_forecasts ?mb (backtest_call ?data 1) = Inr ?b \<and>
      plotting ?mb = Inr () \<and>
      length (true_labels 4 (test ?data)) = length (values_flatten (py_slice_from ?b (- 4)))"
    using first lb by (simp add: fixed_collaborators_def)
  from computed_precision [OF bin ne, THEN conjunct1, rule_format, OF ra]
  have "snd (train_and_evaluate ?ma 4 ?data) = Inr (spec_precision (true_labels 4 (test ?data))
      (binary_predictions (values_flatten (py_slice_from ?a (- 4)))))"
    by blast
  then have "snd (train_and_evaluate ?ma 4 ?data) = Inr (spec_precision [1, 0, 1, 1] [1, 0, 1, 0])"
    by (simp only: labels va)
  moreover have "spec_precision [1, 0, 1, 1] [1, 0, 1, 0] = 1"
    by (simp add: spec_precision_def TP_def FP_def)
  moreover have "snd (train_and_evaluate ?mb 4 ?data) = Inr 0"
  proof -
    from computed_precision [OF bin ne, THEN conjunct1, rule_format, OF rb]
    obtain prec where p: "snd (train_and_evaluate ?mb 4 ?data) = Inr prec"
      and z: "(\<forall>p \<in> set (values_flatten (py_slice_from ?b (- 4))). \<not> p > 0.5) \<longrightarrow> prec = 0"
      by blast
    from z vb have "prec = 0" by (rule mp)
    with p show ?thesis by simp
  qed
  ultimately show ?thesis by simp
qed

text \<open>
  C1 (as the code has it). The scoring step prints the time indices of the last PRED_STEPS
  ground-truth points and of the backtest output and compares nothing: labels and
  predictions are paired by position, and what the trial returns (the precision or the
  exception) is the same for two backtest outputs that carry the same values under
  different timestamps.
\<close>

theorem scoring_by_position:
  assumes fit: "model_fit m' = model_fit m" and plot: "plotting m' = plotting m"
    and hf: "\<And>a. rel_sum (=) (\<lambda>s s'. map snd s = map snd s')
              (model_historical_forecasts m a) (model_historical_forecasts m' a)"
  shows "snd (train_and_evaluate m' n data) = snd (train_and_evaluate m n data)"
proof (cases "py_index (time_index (test data)) (- n)")
  case (Inl e)
  then show ?thesis
    by (simp add: train_and_evaluate_def Let_def fit split: sum.splits)
next
  case (Inr first)
  define hc where "hc = \<lparr>hf_series = test data,
                        hf_past_covariates = past_covariates data,
                        hf_future_covariates = future_covariates data,
                        start = first, forecast_horizon = 1, stride = 1, retrain = False\<rparr>"
  have rel: "rel_sum (=) (\<lambda>s s'. map snd s = map snd s')
      (model_historical_forecasts m hc) (model_historical_forecasts m' hc)"
    by (rule hf)
  show ?thesis
  proof (cases "model_historical_forecasts m hc")
    case (Inl e)
    with rel have "model_historical_forecasts m' hc = Inl e"
      by (cases "model_historical_forecasts m' hc") auto
    with Inl Inr show ?thesis
      by (simp add: train_and_evaluate_def Let_def fit hc_def split: sum.splits)
  next
    case bt: (Inr s)
    with rel obtain s' where s': "model_historical_forecasts m' hc = Inr s'"
      and same: "map snd s = map snd s'"
      by (cases "model_historical_forecasts m' hc") auto
    have "values_flatten (py_slice_from s' (- n)) = values_flatten (py_slice_from s (- n))"
      by (simp add: values_flatten_slice same)
    with bt s' Inr show ?thesis
      by (simp add: train_and_evaluate_def Let_def fit plot hc_def split: sum.splits)
  qed
qed

theorem scoring_by_position_witness:
  "snd (train_and_evaluate (fixed_collaborators (Inr [(5, [0.9]), (6, [0.1])]) (Inr ())) 2
          (tail_labels [0, 1, 0])) = Inr 1"
proof -
  have "snd (train_and_evaluate (fixed_collaborators (Inr [(5, [0.9]), (6, [0.1])]) (Inr ())) 2
          (tail_labels [0, 1, 0]))
      = snd (train_and_evaluate (fixed_collaborators (Inr [(2, [0.9]), (3, [0.1])]) (Inr ())) 2
          (tail_labels [0, 1, 0]))"
    by (rule scoring_by_position) (simp_all add: fixed_collaborators_def)
  also have "\<dots> = Inr 1"
    by (simp add: run_trial_simps)
  finally show ?thesis .
qed

text \<open>
  C1 (as stated) fails: with a test series stamped 1, 2, 3 and a backtest output stamped
  3, 4 (one step late), the time indices of the two windows differ, and the trial still
  returns the precision 1.0 of the positional pairing.
\<close>

theorem scoring_misaligned_counterexample:
  "time_index (py_slice_from [(3::nat, [0.9::real]), (4, [0.1])] (- 2))
     \<noteq> time_index (py_slice_from (test (tail_labels [0, 1, 0])) (- 2)) \<and>
   snd (train_and_evaluate (fixed_collaborators (Inr [(3, [0.9]), (4, [0.1])]) (Inr ())) 2
          (tail_labels [0, 1, 0])) = Inr 1"
  by (simp add: run_trial_simps)

text \<open>
  C4 (as the code has it). The model is deleted and the accelerator cache emptied exactly on
  the runs in which fitting, backtesting, scoring and plotting all return: the two calls
  are then the last ones of the trial, after scoring, logging and plotting. On a run that
  ends in an exception neither call is made.
\<close>

theorem release_only_on_success:
  "(Empty_cache \<in> set (fst (train_and_evaluate m n data)) \<longleftrightarrow>
      (\<exists>p. snd (train_and_evaluate m n data) = Inr p)) \<and>
   (Del_model \<in> set (fst (train_and_evaluate m n data)) \<longleftrightarrow>
      (\<exists>p. snd (train_and_evaluate m n data) = Inr p)) \<and>
   ((\<exists>p. snd (train_and_evaluate m n data) = Inr p) \<longrightarrow>
      (\<exists>cs l b. fst (train_and_evaluate m n data) =
         cs @ [Precision_score l b, Logger_info, Plot, Del_model, Empty_cache]))"
  unfolding train_and_evaluate_def Let_def
  by (auto split: sum.splits)

theorem release_only_on_success_witness:
  "snd (train_and_evaluate (fixed_collaborators (Inr [(2, [0.9]), (3, [0.1])]) (Inr ())) 2
          (tail_labels [0, 1, 0])) = Inr 1 \<and>
   Empty_cache \<in> set (fst (train_and_evaluate
          (fixed_collaborators (Inr [(2, [0.9]), (3, [0.1])]) (Inr ())) 2 (tail_labels [0, 1, 0])))"
proof -
  have "snd (train_and_evaluate (fixed_collaborators (Inr [(2, [0.9]), (3, [0.1])]) (Inr ())) 2
          (tail_labels [0, 1, 0])) = Inr 1"
    by (simp add: run_trial_simps)
  then show ?thesis
    using release_only_on_success
      [of "fixed_collaborators (Inr [(2, [0.9]), (3, [0.1])]) (Inr ())" 2 "tail_labels [0, 1, 0]"]
    by blast
qed

text \<open>
  C4 (as stated) fails. When scoring raises (the labels 0, 1, 2 are multiclass for the
  precision) the trial ends with that exception and the cache is never emptied; the same
  happens when scoring succeeds and the plotting block raises.
\<close>

theorem release_skipped_counterexample:
  "snd (train_and_evaluate
          (fixed_collaborators (Inr [(1, [0.2]), (2, [0.9]), (3, [0.1])]) (Inr ())) 3
          (tail_labels [0, 1, 2])) = Inl ValueError \<and>
   Empty_cache \<notin> set (fst (train_and_evaluate
          (fixed_collaborators (Inr [(1, [0.2]), (2, [0.9]), (3, [0.1])]) (Inr ())) 3
          (tail_labels [0, 1, 2]))) \<and>
   snd (train_and_evaluate (fixed_collaborators (Inr [(2, [0.9]), (3, [0.1])])
          (Inl (Raised ''RuntimeError''))) 2 (tail_labels [0, 1, 0]))
     = Inl (Raised ''RuntimeError'') \<and>
   Empty_cache \<notin> set (fst (train_and_evaluate (fixed_collaborators (Inr [(2, [0.9]), (3, [0.1])])
          (Inl (Raised ''RuntimeError''))) 2 (tail_labels [0, 1, 0])))"
  by (simp add: run_trial_simps)

section \<open>Properties of the backtest\<close>






section \<open>Properties of the search space\<close>

text \<open>
  C5. The domain recorded for the output horizon is the integer range from 1 to
  min(20, PRED_STEPS) whenever PRED_STEPS is at least 1, and the configuration is then
  resolved. When PRED_STEPS is below the lower bound 1, resolution fails at once with the
  range proposal's error (a ValueError, the configuration error of the specification), and
  no domain is recorded for the output horizon: the bounds are not swapped.
\<close>

theorem output_horizon_clamped:
  "(1 \<le> PRED_STEPS \<longrightarrow>
      (\<exists>model. snd (define_model smp PRED_STEPS (new_trial n)) = Inr model) \<and>
      map_of (distributions (fst (define_model smp PRED_STEPS (new_trial n)))) ''output_chunk_length''
        = Some (IntDistribution 1 (min 20 PRED_STEPS))) \<and>
   (PRED_STEPS < 1 \<longrightarrow>
      snd (define_model smp PRED_STEPS (new_trial n)) = Inl ValueError \<and>
      map_of (distributions (fst (define_model smp PRED_STEPS (new_trial n)))) ''output_chunk_length''
        = None)"
  by (auto simp: define_model_simps new_trial_def min_def)

theorem output_horizon_clamped_witness:
  "map_of (distributions (fst (define_model lowest 12 (new_trial 0)))) ''output_chunk_length''
     = Some (IntDistribution 1 12) \<and>
   map_of (distributions (fst (define_model lowest 30 (new_trial 0)))) ''output_chunk_length''
     = Some (IntDistribution 1 20) \<and>
   snd (define_model lowest 0 (new_trial 0)) = Inl ValueError"
  using output_horizon_clamped [of 12 lowest 0] output_horizon_clamped [of 30 lowest 0]
    output_horizon_clamped [of 0 lowest 0]
  by simp

section \<open>Properties of the study and the loop\<close>

lemma completed_snoc:
  "completed (study @ [t]) =
     completed study @
       (if state t = COMPLETE then (case trial_value t of None \<Rightarrow> [] | Some v \<Rightarrow> [(v, t)]) else [])"
  by (auto simp: completed_def List.map_filter_def split: option.splits)

lemma completed_sound:
  "(v, t) \<in> set (completed study) \<longleftrightarrow> t \<in> set study \<and> state t = COMPLETE \<and> trial_value t = Some v"
  by (induction study) (auto simp: completed_def List.map_filter_simps split: option.splits)

lemma find_snoc:
  "find P (xs @ [x]) = (case find P xs of None \<Rightarrow> (if P x then Some x else None) | Some y \<Rightarrow> Some y)"
  by (induction xs) auto

lemma first_max_Some:
  assumes "cs \<noteq> []"
  shows "\<exists>t. first_max cs = Some (Max (set (map fst cs)), t) \<and> (Max (set (map fst cs)), t) \<in> set cs"
proof -
  let ?M = "Max (set (map fst cs))"
  have "?M \<in> set (map fst cs)"
    using assms by (intro Max_in) auto
  then obtain t where mem: "(?M, t) \<in> set cs" by auto
  then have "find (\<lambda>(v, t). v = ?M) cs \<noteq> None"
    by (auto simp: find_None_iff)
  then obtain v' t' where found: "find (\<lambda>(v, t). v = ?M) cs = Some (v', t')"
    by auto
  then have "v' = ?M" and "(v', t') \<in> set cs"
    by (auto simp: find_Some_iff in_set_conv_nth)
  with found assms show ?thesis
    by (cases cs) (auto simp: first_max_def)
qed

lemma first_max_snoc:
  "first_max (cs @ [(v, t)]) = spec_update_best (first_max cs) (v, t)"
proof (cases "cs = []")
  case True
  then show ?thesis by (simp add: first_max_def spec_update_best_def)
next
  case False
  let ?M = "Max (set (map fst cs))"
  from first_max_Some [OF False] obtain bt where b: "first_max cs = Some (?M, bt)"
    and "(?M, bt) \<in> set cs" by blast
  have le: "\<And>x. x \<in> set cs \<Longrightarrow> fst x \<le> ?M"
    by (intro Max_ge) auto
  have M': "Max (set (map fst (cs @ [(v, t)]))) = max v ?M"
    using False by (simp add: Max_insert)
  have step: "first_max (cs @ [(v, t)]) = find (\<lambda>(w, u). w = max v ?M) (cs @ [(v, t)])"
    using M' by (cases cs) (simp_all add: first_max_def)
  have old: "first_max cs = find (\<lambda>(w, u). w = ?M) cs"
    using False by (cases cs) (simp_all add: first_max_def)
  show ?thesis
  proof (cases "v > ?M")
    case True
    then have "\<And>x. x \<in> set cs \<Longrightarrow> fst x \<noteq> v" using le by fastforce
    then have "find (\<lambda>(w, u). w = v) cs = None"
      by (fastforce simp: find_None_iff)
    with True show ?thesis
      by (simp add: step find_snoc b spec_update_best_def max_def)
  next
    case False
    then have "max v ?M = ?M" by simp
    with False b old show ?thesis
      by (simp add: step find_snoc spec_update_best_def)
  qed
qed

lemma best_so_far_first_max:
  "best_so_far study = map_option (\<lambda>(v, t). (v, trial_params t)) (first_max (completed study))"
  by (simp add: best_so_far_def best_def split: option.splits)

lemma map_option_update:
  "map_option (\<lambda>(v, t). (v, f t)) (spec_update_best current (v, t)) =
   spec_update_best (map_option (\<lambda>(v, t). (v, f t)) current) (v, f t)"
  by (auto simp: spec_update_best_def split: option.splits)

lemma best_sound:
  assumes "best study = Inr (v, t)"
  shows "t \<in> set study \<and> state t = COMPLETE \<and> trial_value t = Some v \<and>
         (\<forall>t' \<in> set study. state t' = COMPLETE \<longrightarrow> (\<forall>x. trial_value t' = Some x \<longrightarrow> x \<le> v))"
proof -
  let ?cs = "completed study"
  from assms have ne: "?cs \<noteq> []"
    by (auto simp: best_def first_max_def split: option.splits)
  from first_max_Some [OF ne] assms have v: "v = Max (set (map fst ?cs))" and mem: "(v, t) \<in> set ?cs"
    by (auto simp: best_def)
  have "\<And>x t'. (x, t') \<in> set ?cs \<Longrightarrow> x \<le> v"
    unfolding v by (intro Max_ge) force+
  with mem show ?thesis
    by (auto simp: completed_sound)
qed

text \<open>
  C7. Recording a completed trial changes the best value and parameters of the study exactly
  as the running best of the specification does: they are replaced when the score is
  strictly greater than the current best (or there is none), and kept otherwise; a trial
  that is not complete changes nothing. When the run reports a best score and parameters,
  they are the value and parameters of a completed trial of the study, and no completed
  trial has a greater value; the same holds for the best of any study at any moment.
\<close>

theorem best_is_maximum_of_completed:
  "best_so_far (study @ [tell trial COMPLETE (Some score)])
      = spec_update_best (best_so_far study) (score, params trial) \<and>
   (state t \<noteq> COMPLETE \<longrightarrow> best_so_far (study @ [t]) = best_so_far study) \<and>
   (run_study smp world PRED_STEPS data n_trials loaded = (final, Inr (ps, v)) \<longrightarrow>
      (\<exists>t \<in> set final. state t = COMPLETE \<and> trial_value t = Some v \<and> trial_params t = ps) \<and>
      (\<forall>t \<in> set final. state t = COMPLETE \<longrightarrow> (\<forall>x. trial_value t = Some x \<longrightarrow> x \<le> v))) \<and>
   (best_so_far any_study = Some (b, bp) \<longrightarrow>
      (\<exists>t \<in> set any_study. state t = COMPLETE \<and> trial_value t = Some b \<and> trial_params t = bp) \<and>
      (\<forall>t \<in> set any_study. state t = COMPLETE \<longrightarrow> (\<forall>x. trial_value t = Some x \<longrightarrow> x \<le> b)))"
proof (intro conjI impI)
  show "best_so_far (study @ [tell trial COMPLETE (Some score)])
      = spec_update_best (best_so_far study) (score, params trial)"
    by (simp add: best_so_far_first_max completed_snoc first_max_snoc map_option_update tell_def)
  show "best_so_far (study @ [t]) = best_so_far study" if "state t \<noteq> COMPLETE"
    using that by (simp add: best_so_far_first_max completed_snoc)
next
  assume run: "run_study smp world PRED_STEPS data n_trials loaded = (final, Inr (ps, v))"
  then obtain bt where "best final = Inr (v, bt)" and "ps = trial_params bt"
    by (auto simp: run_study_def best_params_def best_value_def map_sum_def
        split: prod.splits sum.splits)
  with best_sound [of final v bt]
  show "\<exists>t \<in> set final. state t = COMPLETE \<and> trial_value t = Some v \<and> trial_params t = ps"
    and "\<forall>t \<in> set final. state t = COMPLETE \<longrightarrow> (\<forall>x. trial_value t = Some x \<longrightarrow> x \<le> v)"
    by auto
next
  assume "best_so_far any_study = Some (b, bp)"
  then obtain bt where "best any_study = Inr (b, bt)" and "bp = trial_params bt"
    by (auto simp: best_so_far_def split: sum.splits)
  with best_sound [of any_study b bt]
  show "\<exists>t \<in> set any_study. state t = COMPLETE \<and> trial_value t = Some b \<and> trial_params t = bp"
    and "\<forall>t \<in> set any_study. state t = COMPLETE \<longrightarrow> (\<forall>x. trial_value t = Some x \<longrightarrow> x \<le> b)"
    by auto
qed

theorem best_is_maximum_of_completed_witness:
  "best_so_far ([tell (trial_with 0 3) COMPLETE (Some 0.5)] @ [tell (trial_with 1 7) COMPLETE (Some 0.75)])
     = Some (0.75, [(''lags'', Int_value 7)]) \<and>
   best_so_far ([tell (trial_with 0 3) COMPLETE (Some 0.5)] @ [tell (trial_with 1 7) COMPLETE (Some 0.5)])
     = Some (0.5, [(''lags'', Int_value 3)]) \<and>
   best_so_far ([tell (trial_with 0 3) COMPLETE (Some 0.5)] @ [tell (trial_with 1 7) FAIL None])
     = Some (0.5, [(''lags'', Int_value 3)]) \<and>
   (\<exists>t \<in> set (fst (run_study lowest (failing_at 9 [0.2, 0.9, 0.1]) 2 (tail_labels [0, 1, 0]) 2
                       [earlier_trial 0.5, tell (trial_with 1 7) FAIL None])).
      state t = COMPLETE \<and> trial_value t = Some 1)"
proof -
  let ?first = "[tell (trial_with 0 3) COMPLETE (Some 0.5)]"
  note eval = best_so_far_def best_def first_max_def completed_def List.map_filter_simps
    tell_def trial_with_def spec_update_best_def
  have "best_so_far (?first @ [tell (trial_with 1 7) COMPLETE (Some 0.75)])
      = spec_update_best (best_so_far ?first) (0.75, params (trial_with 1 7))"
    by (rule best_is_maximum_of_completed [THEN conjunct1])
  also have "\<dots> = Some (0.75, [(''lags'', Int_value 7)])"
    by (simp add: eval)
  finally have greater: "best_so_far (?first @ [tell (trial_with 1 7) COMPLETE (Some 0.75)])
      = Some (0.75, [(''lags'', Int_value 7)])" .
  have "best_so_far (?first @ [tell (trial_with 1 7) COMPLETE (Some 0.5)])
      = spec_update_best (best_so_far ?first) (0.5, params (trial_with 1 7))"
    by (rule best_is_maximum_of_completed [THEN conjunct1])
  also have "\<dots> = Some (0.5, [(''lags'', Int_value 3)])"
    by (simp add: eval)
  finally have equal: "best_so_far (?first @ [tell (trial_with 1 7) COMPLETE (Some 0.5)])
      = Some (0.5, [(''lags'', Int_value 3)])" .
  have "state (tell (trial_with 1 7) FAIL None) \<noteq> COMPLETE"
    by (simp add: tell_def)
  then have "best_so_far (?first @ [tell (trial_with 1 7) FAIL None]) = best_so_far ?first"
    by (rule best_is_maximum_of_completed [THEN conjunct2, THEN conjunct1, rule_format])
  also have "\<dots> = Some (0.5, [(''lags'', Int_value 3)])"
    by (simp add: eval)
  finally have failed: "best_so_far (?first @ [tell (trial_with 1 7) FAIL None])
      = Some (0.5, [(''lags'', Int_value 3)])" .
  let ?run = "run_study lowest (failing_at 9 [0.2, 0.9, 0.1]) 2 (tail_labels [0, 1, 0]) 2
                [earlier_trial 0.5, tell (trial_with 1 7) FAIL None]"
  have "\<exists>ps. snd ?run = Inr (ps, 1)"
    by (simp add: run_study_simps trial_with_def numeral_nat)
  then obtain ps where "?run = (fst ?run, Inr (ps, 1))"
    by (metis prod.collapse)
  with best_is_maximum_of_completed
    [of _ _ _ _ lowest "failing_at 9 [0.2, 0.9, 0.1]" 2 "tail_labels [0, 1, 0]" 2
        "[earlier_trial 0.5, tell (trial_with 1 7) FAIL None]" "fst ?run" ps 1,
        THEN conjunct2, THEN conjunct2, THEN conjunct1]
  have "\<exists>t \<in> set (fst ?run). state t = COMPLETE \<and> trial_value t = Some 1"
    by blast
  with greater equal failed show ?thesis
    by blast
qed

text \<open>
  The objective reads the best value of the trials recorded before it: in a study without a
  completed trial it raises, whatever the evaluation returned.
\<close>

lemma objective_needs_completed_trial:
  assumes "best_value study = Inl e"
  shows "\<exists>e'. snd (objective smp world PRED_STEPS data study trial) = Inl e'"
  using assms by (auto simp: objective_def split: prod.splits sum.splits)

lemma ran_complete_states:
  "ran_complete func study cs \<Longrightarrow> list_all (\<lambda>t. state t = COMPLETE) cs"
  by (induction cs arbitrary: study) (auto simp: tell_def split: prod.splits sum.splits)

lemma optimize_characterised:
  assumes "optimize func n_trials study = (final, r)"
  shows "\<exists>new. final = study @ new \<and>
     (case r of
        Inr _ \<Rightarrow> length new = n_trials \<and> ran_complete func study new
      | Inl e \<Rightarrow>
          (\<exists>finished trial. new = finished @ [tell trial FAIL None] \<and>
             length finished < n_trials \<and> ran_complete func study finished \<and>
             list_all (\<lambda>t. state t = COMPLETE) finished \<and>
             func (study @ finished) (new_trial (length study + length finished)) = (trial, Inl e)))"
  using assms
proof (induction n_trials arbitrary: study)
  case 0
  then show ?case by auto
next
  case (Suc n)
  obtain trial outcome where f: "func study (new_trial (length study)) = (trial, outcome)"
    by (cases "func study (new_trial (length study))")
  show ?case
  proof (cases outcome)
    case (Inl e)
    with f Suc.prems have "final = study @ [tell trial FAIL None]" and "r = Inl e"
      by simp_all
    with f Inl show ?thesis by simp
  next
    case (Inr v)
    let ?c = "tell trial COMPLETE (Some v)"
    from f Inr Suc.prems have "optimize func n (study @ [?c]) = (final, r)" by simp
    from Suc.IH [OF this] obtain new where final: "final = (study @ [?c]) @ new"
      and rest: "case r of
        Inr _ \<Rightarrow> length new = n \<and> ran_complete func (study @ [?c]) new
      | Inl e \<Rightarrow>
          (\<exists>finished trial. new = finished @ [tell trial FAIL None] \<and>
             length finished < n \<and> ran_complete func (study @ [?c]) finished \<and>
             list_all (\<lambda>t. state t = COMPLETE) finished \<and>
             func ((study @ [?c]) @ finished)
               (new_trial (length (study @ [?c]) + length finished)) = (trial, Inl e))"
      by blast
    show ?thesis
    proof (cases r)
      case r: (Inr u)
      with rest final f Inr show ?thesis
        by (intro exI [of _ "?c # new"]) simp
    next
      case r: (Inl e)
      with rest obtain finished trial' where new: "new = finished @ [tell trial' FAIL None]"
        and n: "length finished < n" and ran: "ran_complete func (study @ [?c]) finished"
        and ok: "list_all (\<lambda>t. state t = COMPLETE) finished"
        and fails: "func ((study @ [?c]) @ finished)
               (new_trial (length (study @ [?c]) + length finished)) = (trial', Inl e)"
        by auto
      have "ran_complete func study (?c # finished)"
        using f Inr ran by simp
      moreover have "list_all (\<lambda>t. state t = COMPLETE) (?c # finished)"
        using ok by (simp add: tell_def)
      moreover have "func (study @ ?c # finished)
          (new_trial (length study + length (?c # finished))) = (trial', Inl e)"
        using fails by simp
      moreover have "?c # new = (?c # finished) @ [tell trial' FAIL None]"
        using new by simp
      moreover have "length (?c # finished) < Suc n" using n by simp
      ultimately have "\<exists>fin tr. ?c # new = fin @ [tell tr FAIL None] \<and>
          length fin < Suc n \<and> ran_complete func study fin \<and>
          list_all (\<lambda>t. state t = COMPLETE) fin \<and>
          func (study @ fin) (new_trial (length study + length fin)) = (tr, Inl e)"
        by blast
      then show ?thesis
        unfolding r final by (intro exI [of _ "?c # new"]) simp
    qed
  qed
qed

lemma fit_error_ends_trial:
  assumes "define_model smp PRED_STEPS trial = (trial', Inr model)"
    and "\<And>a. model_fit (world (number trial) model) a = Inl e"
  shows "objective smp world PRED_STEPS data study trial = (trial', Inl e)"
  using assms by (simp add: objective_def train_and_evaluate_def Let_def)

text \<open>
  C2 (as the code has it). The loop leaves the study it started from in place and appends
  the trials it runs. When it returns, it has run all the trials requested and each of
  them returned a value and is recorded as complete. When it ends with an error, that
  error was raised by the objective of the last trial recorded, which is marked failed;
  the trials of the run before it returned a value and are complete, and no trial runs
  after it. An error raised by fitting is such an error of the objective.
\<close>

theorem optimize_stops_at_first_failure:
  assumes "optimize (objective smp world PRED_STEPS data) n_trials study = (final, r)"
  shows "(\<exists>new. final = study @ new \<and>
     (case r of
        Inr _ \<Rightarrow> length new = n_trials \<and> ran_complete (objective smp world PRED_STEPS data) study new
      | Inl e \<Rightarrow>
          (\<exists>finished trial. new = finished @ [tell trial FAIL None] \<and>
             length finished < n_trials \<and>
             ran_complete (objective smp world PRED_STEPS data) study finished \<and>
             list_all (\<lambda>t. state t = COMPLETE) finished \<and>
             objective smp world PRED_STEPS data (study @ finished)
               (new_trial (length study + length finished)) = (trial, Inl e)))) \<and>
     (define_model smp PRED_STEPS t = (t', Inr model) \<and>
      (\<forall>a. model_fit (world (number t) model) a = Inl e') \<longrightarrow>
        objective smp world PRED_STEPS data any_study t = (t', Inl e'))"
  using optimize_characterised [OF assms] fit_error_ends_trial [of smp PRED_STEPS t t' model world e']
  by blast

theorem optimize_stops_at_first_failure_witness:
  "\<exists>finished trial.
     fst (optimize (objective lowest (failing_at 2 [0.2, 0.9, 0.1]) 2 (tail_labels [0, 1, 0])) 3
            [earlier_trial 0.5])
       = [earlier_trial 0.5] @ finished @ [tell trial FAIL None] \<and>
     length finished < 3 \<and> list_all (\<lambda>t. state t = COMPLETE) finished"
proof -
  let ?run = "optimize (objective lowest (failing_at 2 [0.2, 0.9, 0.1]) 2 (tail_labels [0, 1, 0])) 3
            [earlier_trial 0.5]"
  have "snd ?run = Inl (Raised ''TrainingError'')"
    by (simp add: run_study_simps numeral_nat)
  then have "?run = (fst ?run, Inl (Raised ''TrainingError''))"
    by (metis prod.collapse)
  from optimize_stops_at_first_failure [OF this, THEN conjunct1]
  show ?thesis
    by auto
qed

text \<open>
  C2 (as stated) fails. A study holds one completed trial of an earlier run; five trials are
  requested and fitting raises TrainingError in the third of them. The run ends with that
  error and the study holds the earlier trial, two completed trials and the failed one:
  the fourth and the fifth trial never run.
\<close>

theorem study_terminated_counterexample:
  "map state (fst (run_study lowest (failing_at 3 [0.2, 0.9, 0.1]) 2 (tail_labels [0, 1, 0]) 5
                     [earlier_trial 0.5]))
     = [COMPLETE, COMPLETE, COMPLETE, FAIL] \<and>
   snd (run_study lowest (failing_at 3 [0.2, 0.9, 0.1]) 2 (tail_labels [0, 1, 0]) 5
          [earlier_trial 0.5])
     = Inl (Raised ''TrainingError'')"
  by (simp add: run_study_simps numeral_nat)

end
